theory Spec2Isabelle
  imports Complex_Main "HOL-Library.Sublist"
begin

section \<open>SynthSeg: the two-phase training driver\<close>

text \<open>
  This theory embeds \<^verbatim>\<open>SynthSeg/training.py\<close> (the functions \<^verbatim>\<open>training\<close> and
  \<^verbatim>\<open>train_model\<close>) and the argument table of the command-line launcher
  \<^verbatim>\<open>scripts/launch_scripts_from_terminal/training.py\<close>.

  The driver computes almost nothing itself: it calls the label utilities, the image
  generator, the network builder and Keras in a fixed order. A run is therefore modelled
  as the list of external calls it makes, in order, together with the exception that
  ended it (if any). Values that the driver only hands on (learning rate, bounds, shapes
  given by the user, ...) have the type variable \<open>'v\<close>.
\<close>

subsection \<open>Exceptions\<close>

datatype error =
    AssertionError int int  \<comment> \<open>the epoch check; the message holds both epoch counts\<close>
  | TypeError string        \<comment> \<open>a call with an unexpected keyword argument\<close>
  | KeyError                \<comment> \<open>\<^verbatim>\<open>str.format\<close> with an unknown field\<close>
  | ValueError              \<comment> \<open>\<^verbatim>\<open>str.format\<close> with a single brace\<close>
  | SystemExit int          \<comment> \<open>\<^verbatim>\<open>argparse\<close> rejecting the command line\<close>
  | ExternalError string    \<comment> \<open>anything raised inside an external call\<close>

subsection \<open>Strings: \<^verbatim>\<open>'%03d' % n\<close> and \<^verbatim>\<open>os.path.join\<close>\<close>

definition digit :: "nat \<Rightarrow> char" where
  "digit d = ''0123456789'' ! d"

function digits :: "nat \<Rightarrow> string" where
  "digits n = (if n < 10 then [digit n] else digits (n div 10) @ [digit (n mod 10)])"
  by pat_completeness auto
termination
  by (relation "measure (\<lambda>n. n)") auto

declare digits.simps [simp del]

definition zfill :: "nat \<Rightarrow> string \<Rightarrow> string" where
  "zfill w s = replicate (w - length s) (CHR ''0'') @ s"

text \<open>\<^verbatim>\<open>'%03d' % n\<close>: at least three characters, the sign counted, padded with zeros.\<close>

definition pad3 :: "int \<Rightarrow> string" where
  "pad3 n = (if n < 0 then CHR ''-'' # zfill 2 (digits (nat (- n))) else zfill 3 (digits (nat n)))"

text \<open>\<^verbatim>\<open>os.path.join(a, b)\<close> of \<^verbatim>\<open>posixpath\<close>, for two components.\<close>

definition os_path_join :: "string \<Rightarrow> string \<Rightarrow> string" where
  "os_path_join a b =
     (if b \<noteq> [] \<and> hd b = CHR ''/'' then b
      else if a = [] \<or> last a = CHR ''/'' then a @ b
      else a @ ''/'' @ b)"

subsection \<open>Parameters\<close>

text \<open>
  The 25 parameters of \<^verbatim>\<open>training\<close> that go to \<^verbatim>\<open>BrainGenerator\<close> under their own
  name and unchanged.
\<close>

record 'v generation_params =
  labels_dir :: string
  batchsize :: 'v
  n_channels :: 'v
  target_res :: 'v
  output_shape :: 'v
  prior_distributions :: 'v
  prior_means :: 'v
  prior_stds :: 'v
  use_specific_stats_for_channel :: 'v
  mix_prior_and_random :: 'v
  flipping :: 'v
  scaling_bounds :: 'v
  rotation_bounds :: 'v
  shearing_bounds :: 'v
  translation_bounds :: 'v
  nonlin_std :: 'v
  nonlin_shape_factor :: 'v
  randomise_res :: 'v
  buil_distance_maps :: 'v
  data_res :: 'v
  thickness :: 'v
  downsample :: 'v
  blur_range :: 'v
  bias_field_std :: 'v
  bias_shape_factor :: 'v

text \<open>The remaining parameters of \<^verbatim>\<open>training\<close> (lines 17 to 61).\<close>

record 'v training_args = "'v generation_params" +
  model_dir :: string
  path_generation_labels :: "string option"
  path_segmentation_labels :: "string option"
  save_generation_labels :: "string option"
  path_generation_classes :: 'v
  n_levels :: int
  nb_conv_per_level :: 'v
  conv_size :: 'v
  unet_feat_count :: 'v
  feat_multiplier :: 'v
  dropout :: 'v
  activation :: 'v
  lr :: 'v
  lr_decay :: 'v
  wl2_epochs :: int
  dice_epochs :: int
  steps_per_epoch :: 'v
  load_model_file :: "string option"
  initial_epoch_wl2 :: int
  initial_epoch_dice :: int

text \<open>
  \<^verbatim>\<open>2 ** n\<close> on Python integers is an integer for \<open>n \<ge> 0\<close> and a float for \<open>n < 0\<close>;
  the float's value is not modelled.
\<close>

datatype pynum = PyInt int | PyFloat

definition pow2 :: "int \<Rightarrow> pynum" where
  "pow2 n = (if 0 \<le> n then PyInt (2 ^ nat n) else PyFloat)"

text \<open>The keyword arguments of the \<^verbatim>\<open>BrainGenerator\<close> call (lines 213 to 242).\<close>

record 'v generator_args = "'v generation_params" +
  generation_labels :: "int list"
  output_labels :: "int list"
  n_neutral_labels :: int
  output_div_by_n :: pynum
  generation_classes :: 'v

text \<open>What \<^verbatim>\<open>training\<close> reads from the generator object.\<close>

record brain_generator =
  model_output_shape :: "int list"

subsection \<open>External calls\<close>

datatype model = Unet_model | Wl2_model | Dice_model

datatype loss = IdentityLoss_loss

datatype callback =
    ModelCheckpoint string bool int   \<comment> \<open>filepath, save_weights_only, verbose\<close>
  | TensorBoard string int bool bool  \<comment> \<open>log_dir, histogram_freq, write_graph, write_images\<close>

datatype 'v event =
    Get_list_labels "string option" "string option" "string option" bool
      \<comment> \<open>label_list, labels_dir, save_label_list, FS_sort\<close>
  | Mkdir string
  | New_BrainGenerator "'v generator_args"
  | Unet 'v "int list" int 'v int 'v 'v 'v int 'v
      \<comment> \<open>nb_features, input_shape, nb_levels, conv_size, nb_labels, feat_mult,
          nb_conv_per_level, conv_dropout, batch_norm, activation\<close>
  | Build_training_generator 'v
  | New_Model string
      \<comment> \<open>\<^verbatim>\<open>Model(unet_model.inputs, [unet_model.get_layer(name).output])\<close>\<close>
  | Metrics_model model "int list" model "string option"
      \<comment> \<open>the model built, label_list, input_model, metrics\<close>
  | Load_weights model string bool    \<comment> \<open>model, file, by_name\<close>
  | Compile model 'v 'v loss "rat list"
      \<comment> \<open>model, Adam's lr and decay, loss, loss_weights\<close>
  | Fit_generator model int 'v "callback list" int
      \<comment> \<open>model, epochs, steps_per_epoch, callbacks, initial_epoch\<close>
  | Epoch model int 'v                \<comment> \<open>the steps of one epoch (index from 0)\<close>
  | Save_weights model string
  | Save_model model string
  | TensorBoard_log string int

text \<open>
  The collaborators that are not part of the driver. \<open>get_list_labels\<close> and
  \<open>BrainGenerator\<close> give the value a call returns when it returns; \<open>raises\<close> says which
  calls raise instead, which may depend on the calls made so far. \<open>format_field\<close> is
  what \<^verbatim>\<open>str.format\<close> makes of the rest of a file path from a replacement field on that
  the model does not render itself (such as \<^verbatim>\<open>{loss:.2f}\<close>, a value of the training
  logs); it is given the text after the opening brace and the number of the epoch.
\<close>

record 'v env =
  get_list_labels ::
    "string option \<Rightarrow> string option \<Rightarrow> string option \<Rightarrow> bool \<Rightarrow> int list \<times> int"
  BrainGenerator :: "'v generator_args \<Rightarrow> brain_generator"
  raises :: "'v event list \<Rightarrow> 'v event \<Rightarrow> error option"
  format_field :: "string \<Rightarrow> int \<Rightarrow> error + string"

subsection \<open>Procedures: the calls made so far, and a result or an exception\<close>

type_synonym ('v, 'a) proc = "'v event list \<Rightarrow> 'v event list \<times> (error + 'a)"

definition succeed :: "'a \<Rightarrow> ('v, 'a) proc" where
  "succeed x tr = (tr, Inr x)"

definition throw :: "error \<Rightarrow> ('v, 'a) proc" where
  "throw e tr = (tr, Inl e)"

definition and_then :: "('v, 'a) proc \<Rightarrow> ('a \<Rightarrow> ('v, 'b) proc) \<Rightarrow> ('v, 'b) proc" where
  "and_then p f tr = (case p tr of (tr', Inl e) \<Rightarrow> (tr', Inl e) | (tr', Inr x) \<Rightarrow> f x tr')"

text \<open>An external call: it is recorded, then it raises or returns \<open>x\<close>.\<close>

definition ext :: "'v env \<Rightarrow> 'v event \<Rightarrow> 'a \<Rightarrow> ('v, 'a) proc" where
  "ext env ev x tr = (tr @ [ev], case raises env tr ev of Some e \<Rightarrow> Inl e | None \<Rightarrow> Inr x)"

subsection \<open>The epoch loop and its callbacks\<close>

text \<open>
  Modelled from the spec: \<^verbatim>\<open>fit_generator\<close> and the callbacks \<^verbatim>\<open>ModelCheckpoint\<close> and
  \<^verbatim>\<open>TensorBoard\<close> belong to Keras and are not under \<^verbatim>\<open>src/\<close>. The spec has the epoch
  loop begin at the initial epoch, run a fixed number of steps per epoch and, at the end
  of every epoch, persist the weights to the checkpoint named by the zero-padded epoch
  number (counted from one); the fine-tuning phase also logs summaries.

  The checkpoint name is \<^verbatim>\<open>filepath.format(epoch=epoch + 1, **logs)\<close>.
\<close>

text \<open>\<^verbatim>\<open>str(n)\<close> of an integer.\<close>

definition py_str :: "int \<Rightarrow> string" where
  "py_str n = (if n < 0 then CHR ''-'' # digits (nat (- n)) else digits (nat n))"

text \<open>
  Modelled from the spec: \<^verbatim>\<open>str.format\<close> on the checkpoint's file path, as Keras'
  \<^verbatim>\<open>ModelCheckpoint\<close> calls it (not under \<^verbatim>\<open>src/\<close>); \<open>put\<close> prepends to its result.
  Literal text is copied; \<^verbatim>\<open>{{\<close> and \<^verbatim>\<open>}}\<close> give one brace; a closing brace on its own
  and an opening brace that no closing brace follows are a \<^verbatim>\<open>ValueError\<close>; the fields
  \<^verbatim>\<open>{epoch:03d}\<close> and \<^verbatim>\<open>{epoch}\<close> give the number of the epoch, padded or plain. From any
  other replacement field on, the result is the environment's: \<open>other\<close> stands for
  \<open>format_field\<close>.
\<close>

definition put :: "string \<Rightarrow> error + string \<Rightarrow> error + string" where
  "put s r = (case r of Inl e \<Rightarrow> Inl e | Inr t \<Rightarrow> Inr (s @ t))"

function format_epoch ::
  "(string \<Rightarrow> int \<Rightarrow> error + string) \<Rightarrow> string \<Rightarrow> int \<Rightarrow> error + string" where
  "format_epoch other [] n = Inr []"
| "format_epoch other (c # cs) n =
     (if c = CHR ''{'' then
        (if take 1 cs = ''{'' then put ''{'' (format_epoch other (drop 1 cs) n)
         else if take 10 cs = ''epoch:03d}''
           then put (pad3 n) (format_epoch other (drop 10 cs) n)
         else if take 6 cs = ''epoch}''
           then put (py_str n) (format_epoch other (drop 6 cs) n)
         else if CHR ''}'' \<notin> set cs then Inl ValueError
         else other cs n)
      else if c = CHR ''}'' then
        (if take 1 cs = ''}'' then put ''}'' (format_epoch other (drop 1 cs) n)
         else Inl ValueError)
      else put [c] (format_epoch other cs n))"
  by pat_completeness auto
termination
  by (relation "measure (\<lambda>(other, s, n). length s)") auto

text \<open>
  Modelled from the spec: what a callback does at the end of an epoch (Keras, not under
  \<^verbatim>\<open>src/\<close>). The checkpoint callback saves under the formatted name, the weights only
  if so configured; the TensorBoard callback logs the epoch's summaries.
\<close>

fun callback_epoch_end :: "'v env \<Rightarrow> model \<Rightarrow> callback \<Rightarrow> int \<Rightarrow> ('v, unit) proc" where
  "callback_epoch_end env m (ModelCheckpoint filepath save_weights_only verbose) epoch =
     (case format_epoch (format_field env) filepath (epoch + 1) of
        Inl e \<Rightarrow> throw e
      | Inr file \<Rightarrow>
          ext env (if save_weights_only then Save_weights m file else Save_model m file) ())"
| "callback_epoch_end env m (TensorBoard log_dir histogram_freq write_graph write_images) epoch =
     ext env (TensorBoard_log log_dir epoch) ()"

text \<open>
  Modelled from the spec: at the end of an epoch the callbacks run in the order of the
  list (Keras, not under \<^verbatim>\<open>src/\<close>).
\<close>

fun on_epoch_end :: "'v env \<Rightarrow> model \<Rightarrow> callback list \<Rightarrow> int \<Rightarrow> ('v, unit) proc" where
  "on_epoch_end env m [] epoch = succeed ()"
| "on_epoch_end env m (cb # cbs) epoch =
     and_then (callback_epoch_end env m cb epoch) (\<lambda>_. on_epoch_end env m cbs epoch)"

text \<open>
  Modelled from the spec: the epoch loop of \<^verbatim>\<open>fit_generator\<close> (Keras, not under
  \<^verbatim>\<open>src/\<close>): epochs \<open>epoch, \<dots>, epochs - 1\<close>, each the steps and then the callbacks; an
  exception ends the loop.
\<close>

function fit_epochs ::
  "'v env \<Rightarrow> model \<Rightarrow> int \<Rightarrow> 'v \<Rightarrow> callback list \<Rightarrow> int \<Rightarrow> ('v, unit) proc" where
  "fit_epochs env m epochs steps callbacks epoch tr =
     (if epoch < epochs then
        (case ext env (Epoch m epoch steps) () tr of
           (tr1, Inl e) \<Rightarrow> (tr1, Inl e)
         | (tr1, Inr _) \<Rightarrow>
             (case on_epoch_end env m callbacks epoch tr1 of
                (tr2, Inl e) \<Rightarrow> (tr2, Inl e)
              | (tr2, Inr _) \<Rightarrow> fit_epochs env m epochs steps callbacks (epoch + 1) tr2))
      else (tr, Inr ()))"
  by pat_completeness auto
termination
  by (relation "measure (\<lambda>(env, m, epochs, steps, callbacks, epoch, tr). nat (epochs - epoch))")
    auto

declare fit_epochs.simps [simp del]

text \<open>
  Modelled from the spec: \<^verbatim>\<open>model.fit_generator\<close> (Keras, not under \<^verbatim>\<open>src/\<close>): the call
  itself, then the epoch loop from \<open>initial_epoch\<close>.
\<close>

definition fit_generator ::
  "'v env \<Rightarrow> model \<Rightarrow> int \<Rightarrow> 'v \<Rightarrow> callback list \<Rightarrow> int \<Rightarrow> ('v, unit) proc" where
  "fit_generator env m epochs steps callbacks initial_epoch =
     and_then (ext env (Fit_generator m epochs steps callbacks initial_epoch) ())
       (\<lambda>_. fit_epochs env m epochs steps callbacks initial_epoch)"

text \<open>
  Modelled from the spec: \<^verbatim>\<open>IdentityLoss.loss\<close> is defined in \<^verbatim>\<open>metrics_model.py\<close>,
  which is not under \<^verbatim>\<open>src/\<close>. The spec: the wrapped model already reduces to a scalar
  per example, and the outer loss passes that scalar through.
\<close>

fun apply_loss :: "loss \<Rightarrow> 'y \<Rightarrow> 'y \<Rightarrow> 'y" where
  "apply_loss IdentityLoss_loss y_true y_predicted = y_predicted"

subsection \<open>\<^verbatim>\<open>train_model\<close> (lines 286 to 315)\<close>

text \<open>Lines 297 to 303: the callbacks.\<close>

definition train_callbacks :: "string \<Rightarrow> string \<Rightarrow> string \<Rightarrow> callback list" where
  "train_callbacks model_dir' log_dir metric_type =
     (let save_file_name = os_path_join model_dir' (metric_type @ ''_{epoch:03d}.h5'');
          callbacks = [ModelCheckpoint save_file_name True 1]
      in if metric_type = ''dice''
         then callbacks @ [TensorBoard log_dir 0 True False] else callbacks)"

text \<open>Lines 305 to 315: compile and fit.\<close>

definition train_model ::
  "'v env \<Rightarrow> model \<Rightarrow> 'v \<Rightarrow> 'v \<Rightarrow> int \<Rightarrow> 'v \<Rightarrow> string \<Rightarrow> string \<Rightarrow> string \<Rightarrow> int
     \<Rightarrow> ('v, unit) proc" where
  "train_model env model learning_rate lr_decay' n_epochs n_steps model_dir' log_dir
       metric_type initial_epoch =
     (let callbacks = train_callbacks model_dir' log_dir metric_type
      in and_then (ext env (Compile model learning_rate lr_decay' IdentityLoss_loss [1]) ())
           (\<lambda>_. fit_generator env model n_epochs n_steps callbacks initial_epoch))"

subsection \<open>\<^verbatim>\<open>training\<close> (lines 190 to 283)\<close>

text \<open>Lines 265 to 272: pre-training with the weighted L2 loss.\<close>

definition wl2_phase :: "'v env \<Rightarrow> 'v training_args \<Rightarrow> int list \<Rightarrow> string \<Rightarrow> ('v, unit) proc" where
  "wl2_phase env a segmentation_labels log_dir =
     (if wl2_epochs a > 0 then
        and_then (ext env (New_Model ''unet_likelihood'') ())
        (\<lambda>_. and_then (ext env (Metrics_model Wl2_model segmentation_labels Wl2_model (Some ''wl2'')) ())
        (\<lambda>_. and_then (case load_model_file a of
                          Some file \<Rightarrow> ext env (Load_weights Wl2_model file False) ()
                        | None \<Rightarrow> succeed ())
        (\<lambda>_. train_model env Wl2_model (lr a) (lr_decay a) (wl2_epochs a) (steps_per_epoch a)
                (model_dir a) log_dir ''wl2'' (initial_epoch_wl2 a))))
      else succeed ())"

text \<open>Lines 274 to 283: fine-tuning with the Dice loss.\<close>

definition dice_phase :: "'v env \<Rightarrow> 'v training_args \<Rightarrow> int list \<Rightarrow> string \<Rightarrow> ('v, unit) proc" where
  "dice_phase env a segmentation_labels log_dir =
     (if dice_epochs a > 0 then
        and_then (ext env (Metrics_model Dice_model segmentation_labels Unet_model None) ())
        (\<lambda>_. and_then
               (if wl2_epochs a > 0 then
                  (let last_wl2_model_name =
                         os_path_join (model_dir a) (''wl2_'' @ pad3 (wl2_epochs a) @ ''.h5'')
                   in ext env (Load_weights Dice_model last_wl2_model_name True) ())
                else (case load_model_file a of
                        Some file \<Rightarrow> ext env (Load_weights Dice_model file False) ()
                      | None \<Rightarrow> succeed ()))
        (\<lambda>_. train_model env Dice_model (lr a) (lr_decay a) (dice_epochs a) (steps_per_epoch a)
                (model_dir a) log_dir ''dice'' (initial_epoch_dice a)))
      else succeed ())"

text \<open>Lines 212 to 242: the keyword arguments of the generator.\<close>

definition generator_kwargs ::
  "'v training_args \<Rightarrow> int list \<Rightarrow> int \<Rightarrow> int list \<Rightarrow> 'v generator_args" where
  "generator_kwargs a generation_labels' n_neutral_labels' segmentation_labels =
     \<lparr> labels_dir = labels_dir a,
       batchsize = batchsize a,
       n_channels = n_channels a,
       target_res = target_res a,
       output_shape = output_shape a,
       prior_distributions = prior_distributions a,
       prior_means = prior_means a,
       prior_stds = prior_stds a,
       use_specific_stats_for_channel = use_specific_stats_for_channel a,
       mix_prior_and_random = mix_prior_and_random a,
       flipping = flipping a,
       scaling_bounds = scaling_bounds a,
       rotation_bounds = rotation_bounds a,
       shearing_bounds = shearing_bounds a,
       translation_bounds = translation_bounds a,
       nonlin_std = nonlin_std a,
       nonlin_shape_factor = nonlin_shape_factor a,
       randomise_res = randomise_res a,
       buil_distance_maps = buil_distance_maps a,
       data_res = data_res a,
       thickness = thickness a,
       downsample = downsample a,
       blur_range = blur_range a,
       bias_field_std = bias_field_std a,
       bias_shape_factor = bias_shape_factor a,
       generation_labels = generation_labels',
       output_labels = segmentation_labels,
       n_neutral_labels = n_neutral_labels',
       output_div_by_n = pow2 (n_levels a),
       generation_classes = path_generation_classes a \<rparr>"

text \<open>Lines 244 to 283: the network, the input generator and the two phases.\<close>

definition build_and_train ::
  "'v env \<Rightarrow> 'v training_args \<Rightarrow> int list \<Rightarrow> string \<Rightarrow> brain_generator \<Rightarrow> ('v, unit) proc" where
  "build_and_train env a segmentation_labels log_dir brain_generator =
     (let n_segmentation_labels = int (length segmentation_labels);
          unet_input_shape = model_output_shape brain_generator
      in and_then
           (ext env (Unet (unet_feat_count a) unet_input_shape (n_levels a) (conv_size a)
                       n_segmentation_labels (feat_multiplier a) (nb_conv_per_level a)
                       (dropout a) (- 1) (activation a)) ())
         (\<lambda>_. and_then (ext env (Build_training_generator (batchsize a)) ())
         (\<lambda>_. and_then (wl2_phase env a segmentation_labels log_dir)
         (\<lambda>_. dice_phase env a segmentation_labels log_dir))))"

text \<open>Lines 190 to 242, then the rest.\<close>

definition training :: "'v env \<Rightarrow> 'v training_args \<Rightarrow> ('v, unit) proc" where
  "training env a =
     (if \<not> (wl2_epochs a > 0 \<or> dice_epochs a > 0)
      then throw (AssertionError (wl2_epochs a) (dice_epochs a))
      else
        and_then
          (ext env (Get_list_labels (path_generation_labels a) (Some (labels_dir a))
                      (save_generation_labels a) True)
             (get_list_labels env (path_generation_labels a) (Some (labels_dir a))
                (save_generation_labels a) True))
        (\<lambda>(generation_labels', n_neutral_labels').
        and_then
          (case path_segmentation_labels a of
             Some path \<Rightarrow>
               and_then
                 (ext env (Get_list_labels (Some path) None None True)
                    (get_list_labels env (Some path) None None True))
                 (\<lambda>(segmentation_labels, _). succeed segmentation_labels)
           | None \<Rightarrow> succeed generation_labels')
        (\<lambda>segmentation_labels.
        and_then (ext env (Mkdir (model_dir a)) ())
        (\<lambda>_. let log_dir = os_path_join (model_dir a) ''logs'' in
        and_then (ext env (Mkdir log_dir) ())
        (\<lambda>_. let kwargs = generator_kwargs a generation_labels' n_neutral_labels'
                             segmentation_labels in
        and_then (ext env (New_BrainGenerator kwargs) (BrainGenerator env kwargs))
        (\<lambda>brain_generator.
           build_and_train env a segmentation_labels log_dir brain_generator))))))"

text \<open>A run of \<^verbatim>\<open>training\<close>: the calls it made, and how it ended.\<close>

definition run :: "'v env \<Rightarrow> 'v training_args \<Rightarrow> 'v event list \<times> (error + unit)" where
  "run env a = training env a []"

definition calls :: "'v env \<Rightarrow> 'v training_args \<Rightarrow> 'v event list" where
  "calls env a = fst (run env a)"

definition completes :: "'v env \<Rightarrow> 'v training_args \<Rightarrow> bool" where
  "completes env a \<longleftrightarrow> snd (run env a) = Inr ()"

subsection \<open>Reading a run\<close>


fun mkdir_of :: "'v event \<Rightarrow> string list" where
  "mkdir_of (Mkdir d) = [d]"
| "mkdir_of _ = []"

definition directories :: "'v event list \<Rightarrow> string list" where
  "directories tr = concat (map mkdir_of tr)"

fun load_of :: "model \<Rightarrow> 'v event \<Rightarrow> (string \<times> bool) list" where
  "load_of m (Load_weights m' file by_name) = (if m' = m then [(file, by_name)] else [])"
| "load_of m _ = []"

definition loads :: "model \<Rightarrow> 'v event list \<Rightarrow> (string \<times> bool) list" where
  "loads m tr = concat (map (load_of m) tr)"

fun epoch_of :: "model \<Rightarrow> 'v event \<Rightarrow> int list" where
  "epoch_of m (Epoch m' e s) = (if m' = m then [e] else [])"
| "epoch_of m _ = []"

definition epochs_run :: "model \<Rightarrow> 'v event list \<Rightarrow> int list" where
  "epochs_run m tr = concat (map (epoch_of m) tr)"

fun save_of :: "model \<Rightarrow> 'v event \<Rightarrow> string list" where
  "save_of m (Save_weights m' file) = (if m' = m then [file] else [])"
| "save_of m _ = []"

definition checkpoints :: "model \<Rightarrow> 'v event list \<Rightarrow> string list" where
  "checkpoints m tr = concat (map (save_of m) tr)"

fun is_Save_model :: "'v event \<Rightarrow> bool" where
  "is_Save_model (Save_model m file) = True"
| "is_Save_model _ = False"

fun summary_of :: "'v event \<Rightarrow> (string \<times> int) list" where
  "summary_of (TensorBoard_log d e) = [(d, e)]"
| "summary_of _ = []"

definition summaries :: "'v event list \<Rightarrow> (string \<times> int) list" where
  "summaries tr = concat (map summary_of tr)"

fun callbacks_of :: "model \<Rightarrow> 'v event \<Rightarrow> callback list list" where
  "callbacks_of m (Fit_generator m' epochs steps cbs initial_epoch) = (if m' = m then [cbs] else [])"
| "callbacks_of m _ = []"

definition fit_callbacks :: "model \<Rightarrow> 'v event list \<Rightarrow> callback list list" where
  "fit_callbacks m tr = concat (map (callbacks_of m) tr)"

fun is_TensorBoard :: "callback \<Rightarrow> bool" where
  "is_TensorBoard (TensorBoard d h g i) = True"
| "is_TensorBoard _ = False"

fun compile_of :: "'v event \<Rightarrow> (model \<times> loss \<times> rat list) list" where
  "compile_of (Compile m l d lo w) = [(m, lo, w)]"
| "compile_of _ = []"

definition compiles :: "'v event list \<Rightarrow> (model \<times> loss \<times> rat list) list" where
  "compiles tr = concat (map compile_of tr)"

fun generator_of :: "'v event \<Rightarrow> 'v generator_args list" where
  "generator_of (New_BrainGenerator g) = [g]"
| "generator_of _ = []"

definition generators :: "'v event list \<Rightarrow> 'v generator_args list" where
  "generators tr = concat (map generator_of tr)"

fun unet_of :: "'v event \<Rightarrow> (int list \<times> int) list" where
  "unet_of (Unet f shape levels c n fm cl dr bn act) = [(shape, levels)]"
| "unet_of _ = []"

definition unets :: "'v event list \<Rightarrow> (int list \<times> int) list" where
  "unets tr = concat (map unet_of tr)"

text \<open>The calls of the epoch loop.\<close>

fun fit_event :: "'v event \<Rightarrow> bool" where
  "fit_event (Epoch m e s) = True"
| "fit_event (Save_weights m f) = True"
| "fit_event (Save_model m f) = True"
| "fit_event (TensorBoard_log d e) = True"
| "fit_event _ = False"

text \<open>
  The checkpoint of epoch number \<open>n\<close> (counted from one) of a phase, as the spec names
  it: \<^verbatim>\<open>'wl2_%03d.h5' % n\<close> or \<^verbatim>\<open>'dice_%03d.h5' % n\<close> in the model directory.
\<close>

definition checkpoint_file :: "string \<Rightarrow> string \<Rightarrow> int \<Rightarrow> string" where
  "checkpoint_file dir tag n = os_path_join dir (tag @ ''_'' @ pad3 n @ ''.h5'')"

definition braceless :: "string \<Rightarrow> bool" where
  "braceless s \<longleftrightarrow> CHR ''{'' \<notin> set s \<and> CHR ''}'' \<notin> set s"

subsection \<open>The calls of a run that nothing interrupts\<close>

text \<open>
  The straight-line list of calls of each part of the driver. \<open>performs\<close> ties a
  procedure to its list: it makes these calls in this order and returns, or it stops
  with an exception after some of them.
\<close>

definition performs :: "'v event list \<Rightarrow> 'a \<Rightarrow> ('v, 'a) proc \<Rightarrow> bool" where
  "performs evs v p \<longleftrightarrow>
     (\<forall>tr. p tr = (tr @ evs, Inr v) \<or> (\<exists>k e. p tr = (tr @ take k evs, Inl e)))"

definition callback_calls :: "'v env \<Rightarrow> model \<Rightarrow> callback \<Rightarrow> int \<Rightarrow> 'v event list" where
  "callback_calls env m cb epoch =
     (case cb of
        ModelCheckpoint filepath save_weights_only verbose \<Rightarrow>
          (case format_epoch (format_field env) filepath (epoch + 1) of
             Inl e \<Rightarrow> []
           | Inr file \<Rightarrow> [if save_weights_only then Save_weights m file else Save_model m file])
      | TensorBoard log_dir histogram_freq write_graph write_images \<Rightarrow>
          [TensorBoard_log log_dir epoch])"

definition epoch_calls :: "'v env \<Rightarrow> model \<Rightarrow> 'v \<Rightarrow> callback list \<Rightarrow> int \<Rightarrow> 'v event list" where
  "epoch_calls env m steps cbs epoch =
     Epoch m epoch steps # concat (map (\<lambda>cb. callback_calls env m cb epoch) cbs)"

definition fit_calls ::
  "'v env \<Rightarrow> model \<Rightarrow> int \<Rightarrow> 'v \<Rightarrow> callback list \<Rightarrow> int \<Rightarrow> 'v event list" where
  "fit_calls env m epochs steps cbs initial_epoch =
     concat (map (epoch_calls env m steps cbs) [initial_epoch..epochs - 1])"

definition train_model_calls ::
  "'v env \<Rightarrow> model \<Rightarrow> 'v \<Rightarrow> 'v \<Rightarrow> int \<Rightarrow> 'v \<Rightarrow> string \<Rightarrow> string \<Rightarrow> string \<Rightarrow> int \<Rightarrow> 'v event list" where
  "train_model_calls env m learning_rate decay n_epochs n_steps dir log_dir metric_type initial_epoch =
     Compile m learning_rate decay IdentityLoss_loss [1] #
     Fit_generator m n_epochs n_steps (train_callbacks dir log_dir metric_type) initial_epoch #
     fit_calls env m n_epochs n_steps (train_callbacks dir log_dir metric_type) initial_epoch"

definition wl2_calls :: "'v env \<Rightarrow> 'v training_args \<Rightarrow> int list \<Rightarrow> string \<Rightarrow> 'v event list" where
  "wl2_calls env a segmentation_labels log_dir =
     (if wl2_epochs a > 0 then
        New_Model ''unet_likelihood'' #
        Metrics_model Wl2_model segmentation_labels Wl2_model (Some ''wl2'') #
        (case load_model_file a of
           Some file \<Rightarrow> [Load_weights Wl2_model file False] | None \<Rightarrow> []) @
        train_model_calls env Wl2_model (lr a) (lr_decay a) (wl2_epochs a) (steps_per_epoch a)
          (model_dir a) log_dir ''wl2'' (initial_epoch_wl2 a)
      else [])"

definition dice_calls :: "'v env \<Rightarrow> 'v training_args \<Rightarrow> int list \<Rightarrow> string \<Rightarrow> 'v event list" where
  "dice_calls env a segmentation_labels log_dir =
     (if dice_epochs a > 0 then
        Metrics_model Dice_model segmentation_labels Unet_model None #
        (if wl2_epochs a > 0
         then [Load_weights Dice_model
                 (os_path_join (model_dir a) (''wl2_'' @ pad3 (wl2_epochs a) @ ''.h5'')) True]
         else (case load_model_file a of
                 Some file \<Rightarrow> [Load_weights Dice_model file False] | None \<Rightarrow> [])) @
        train_model_calls env Dice_model (lr a) (lr_decay a) (dice_epochs a) (steps_per_epoch a)
          (model_dir a) log_dir ''dice'' (initial_epoch_dice a)
      else [])"

text \<open>The label lists of lines 194 to 203 and the keyword arguments built from them.\<close>

definition resolved_generation :: "'v env \<Rightarrow> 'v training_args \<Rightarrow> int list \<times> int" where
  "resolved_generation env a =
     get_list_labels env (path_generation_labels a) (Some (labels_dir a))
       (save_generation_labels a) True"

definition resolved_segmentation :: "'v env \<Rightarrow> 'v training_args \<Rightarrow> int list" where
  "resolved_segmentation env a =
     (case path_segmentation_labels a of
        Some path \<Rightarrow> fst (get_list_labels env (Some path) None None True)
      | None \<Rightarrow> fst (resolved_generation env a))"

definition resolved_kwargs :: "'v env \<Rightarrow> 'v training_args \<Rightarrow> 'v generator_args" where
  "resolved_kwargs env a =
     generator_kwargs a (fst (resolved_generation env a)) (snd (resolved_generation env a))
       (resolved_segmentation env a)"

definition label_calls :: "'v training_args \<Rightarrow> 'v event list" where
  "label_calls a =
     Get_list_labels (path_generation_labels a) (Some (labels_dir a))
       (save_generation_labels a) True #
     (case path_segmentation_labels a of
        Some path \<Rightarrow> [Get_list_labels (Some path) None None True] | None \<Rightarrow> [])"

definition build_calls :: "'v env \<Rightarrow> 'v training_args \<Rightarrow> 'v event list" where
  "build_calls env a =
     Unet (unet_feat_count a) (model_output_shape (BrainGenerator env (resolved_kwargs env a)))
       (n_levels a) (conv_size a) (int (length (resolved_segmentation env a)))
       (feat_multiplier a) (nb_conv_per_level a) (dropout a) (- 1) (activation a) #
     Build_training_generator (batchsize a) #
     wl2_calls env a (resolved_segmentation env a) (os_path_join (model_dir a) ''logs'') @
     dice_calls env a (resolved_segmentation env a) (os_path_join (model_dir a) ''logs'')"

definition all_calls :: "'v env \<Rightarrow> 'v training_args \<Rightarrow> 'v event list" where
  "all_calls env a =
     (if \<not> (wl2_epochs a > 0 \<or> dice_epochs a > 0) then []
      else label_calls a @
           Mkdir (model_dir a) # Mkdir (os_path_join (model_dir a) ''logs'') #
           New_BrainGenerator (resolved_kwargs env a) # build_calls env a)"

text \<open>
  \<open>lagging m name tr\<close>: in \<open>tr\<close>, the checkpoints of model \<open>m\<close> are the names of the
  epochs begun, in order, and at most one epoch, the last, has none yet. \<open>stepwise\<close>
  says so of every prefix of \<open>tr\<close>, and that in \<open>tr\<close> itself no epoch lacks one.
\<close>

definition lagging :: "model \<Rightarrow> (int \<Rightarrow> string) \<Rightarrow> 'v event list \<Rightarrow> bool" where
  "lagging m name tr \<longleftrightarrow>
     checkpoints m tr = map name (take (length (checkpoints m tr)) (epochs_run m tr)) \<and>
     length (epochs_run m tr) \<le> Suc (length (checkpoints m tr))"

definition stepwise :: "model \<Rightarrow> (int \<Rightarrow> string) \<Rightarrow> 'v event list \<Rightarrow> bool" where
  "stepwise m name tr \<longleftrightarrow>
     checkpoints m tr = map name (epochs_run m tr) \<and> (\<forall>k. lagging m name (take k tr))"

text \<open>An environment in which no call raises, and a procedure that always returns.\<close>

definition never_raises :: "'v env \<Rightarrow> bool" where
  "never_raises env \<longleftrightarrow> (\<forall>tr ev. raises env tr ev = None)"

definition returns :: "('v, 'a) proc \<Rightarrow> bool" where
  "returns p \<longleftrightarrow> (\<forall>tr. \<exists>tr' x. p tr = (tr', Inr x))"

subsection \<open>The command-line launcher\<close>

datatype pyval = PNone | PBool bool | PInt int | PFloat rat | PStr string

text \<open>
  The parameters of \<^verbatim>\<open>training\<close> and their defaults (lines 17 to 61), the table the
  docstring documents. A decimal literal stands for its decimal value.
\<close>

definition training_signature :: "(string \<times> pyval option) list" where
  "training_signature =
     [(''labels_dir'', None),
      (''model_dir'', None),
      (''path_generation_labels'', Some PNone),
      (''path_segmentation_labels'', Some PNone),
      (''save_generation_labels'', Some PNone),
      (''batchsize'', Some (PInt 1)),
      (''n_channels'', Some (PInt 1)),
      (''target_res'', Some PNone),
      (''output_shape'', Some PNone),
      (''path_generation_classes'', Some PNone),
      (''prior_distributions'', Some (PStr ''uniform'')),
      (''prior_means'', Some PNone),
      (''prior_stds'', Some PNone),
      (''use_specific_stats_for_channel'', Some (PBool False)),
      (''mix_prior_and_random'', Some (PBool False)),
      (''flipping'', Some (PBool True)),
      (''scaling_bounds'', Some (PFloat (15 / 100))),
      (''rotation_bounds'', Some (PInt 15)),
      (''shearing_bounds'', Some (PFloat (12 / 1000))),
      (''translation_bounds'', Some (PBool False)),
      (''nonlin_std'', Some (PFloat 4)),
      (''nonlin_shape_factor'', Some (PFloat (4 / 100))),
      (''randomise_res'', Some (PBool False)),
      (''buil_distance_maps'', Some (PBool False)),
      (''data_res'', Some PNone),
      (''thickness'', Some PNone),
      (''downsample'', Some (PBool False)),
      (''blur_range'', Some (PFloat (115 / 100))),
      (''bias_field_std'', Some (PFloat (5 / 10))),
      (''bias_shape_factor'', Some (PFloat (25 / 1000))),
      (''n_levels'', Some (PInt 5)),
      (''nb_conv_per_level'', Some (PInt 2)),
      (''conv_size'', Some (PInt 3)),
      (''unet_feat_count'', Some (PInt 24)),
      (''feat_multiplier'', Some (PInt 2)),
      (''dropout'', Some (PInt 0)),
      (''activation'', Some (PStr ''elu'')),
      (''lr'', Some (PFloat (1 / 10000))),
      (''lr_decay'', Some (PInt 0)),
      (''wl2_epochs'', Some (PInt 5)),
      (''dice_epochs'', Some (PInt 100)),
      (''steps_per_epoch'', Some (PInt 1000)),
      (''load_model_file'', Some PNone),
      (''initial_epoch_wl2'', Some (PInt 0)),
      (''initial_epoch_dice'', Some (PInt 0))]"

text \<open>
  The \<^verbatim>\<open>add_argument\<close> calls of the launcher, in order: a positional argument, an
  option with a value and a default, or a switch.
\<close>

datatype argument =
    Positional string            \<comment> \<open>dest\<close>
  | Valued string string pyval   \<comment> \<open>flag, dest, default\<close>
  | Store_true string string     \<comment> \<open>flag, dest\<close>
  | Store_false string string    \<comment> \<open>flag, dest\<close>

definition parser :: "argument list" where
  "parser =
     [Positional ''labels_dir'',
      Positional ''model_dir'',
      Valued ''--generation_labels'' ''path_generation_labels'' PNone,
      Valued ''--segmentation_labels'' ''path_segmentation_labels'' PNone,
      Valued ''--save_generation_labels'' ''save_generation_labels'' PNone,
      Valued ''--batch_size'' ''batchsize'' (PInt 1),
      Valued ''--channels'' ''n_channels'' (PInt 1),
      Valued ''--target_res'' ''target_res'' PNone,
      Valued ''--output_shape'' ''output_shape'' PNone,
      Valued ''--generation_classes'' ''path_generation_classes'' PNone,
      Valued ''--prior_type'' ''prior_distributions'' (PStr ''uniform''),
      Valued ''--prior_means'' ''prior_means'' PNone,
      Valued ''--prior_stds'' ''prior_stds'' PNone,
      Store_true ''--specific_stats'' ''use_specific_stats_for_channel'',
      Store_true ''--mix_prior_and_random'' ''mix_prior_and_random'',
      Store_false ''--no_flipping'' ''flipping'',
      Valued ''--scaling'' ''scaling_bounds'' (PFloat (15 / 100)),
      Valued ''--rotation'' ''rotation_bounds'' (PInt 15),
      Valued ''--shearing'' ''shearing_bounds'' (PFloat (12 / 1000)),
      Valued ''--translation'' ''translation_bounds'' (PBool False),
      Valued ''--nonlin_std'' ''nonlin_std'' (PFloat 3),
      Valued ''--nonlin_shape_factor'' ''nonlin_shape_factor'' (PFloat (4 / 100)),
      Store_true ''--randomise_res'' ''randomise_res'',
      Store_true ''--distance_maps'' ''build_distance_maps'',
      Valued ''--data_res'' ''data_res'' PNone,
      Valued ''--thickness'' ''thickness'' PNone,
      Store_true ''--downsample'' ''downsample'',
      Valued ''--blur_range'' ''blur_range'' (PFloat (103 / 100)),
      Valued ''--bias_std'' ''bias_field_std'' (PFloat (5 / 10)),
      Valued ''--bias_shape_factor'' ''bias_shape_factor'' (PFloat (25 / 1000)),
      Valued ''--n_levels'' ''n_levels'' (PInt 5),
      Valued ''--conv_per_level'' ''nb_conv_per_level'' (PInt 2),
      Valued ''--conv_size'' ''conv_size'' (PInt 3),
      Valued ''--unet_feat'' ''unet_feat_count'' (PInt 24),
      Valued ''--feat_mult'' ''feat_multiplier'' (PInt 2),
      Valued ''--dropout'' ''dropout'' (PFloat 0),
      Valued ''--activation'' ''activation'' (PStr ''elu''),
      Valued ''--lr'' ''lr'' (PFloat (1 / 10000)),
      Valued ''--lr_decay'' ''lr_decay'' (PInt 0),
      Valued ''--wl2_epochs'' ''wl2_epochs'' (PInt 5),
      Valued ''--dice_epochs'' ''dice_epochs'' (PInt 100),
      Valued ''--steps_per_epoch'' ''steps_per_epoch'' (PInt 1000),
      Valued ''--checkpoint'' ''checkpoint'' PNone]"

text \<open>
  \<^verbatim>\<open>vars(parser.parse_args())\<close> for a command line that gives the positional arguments
  \<open>pos\<close> and no option: every dest is a key, in the order of the \<^verbatim>\<open>add_argument\<close> calls;
  an option holds its default, a switch the opposite of what it stores. A missing
  positional argument and one too many make \<^verbatim>\<open>argparse\<close> exit with status 2.
\<close>

definition bound ::
  "string \<times> pyval \<Rightarrow> error + (string \<times> pyval) list \<Rightarrow> error + (string \<times> pyval) list" where
  "bound kv r = (case r of Inl e \<Rightarrow> Inl e | Inr ns \<Rightarrow> Inr (kv # ns))"

fun namespace :: "argument list \<Rightarrow> string list \<Rightarrow> error + (string \<times> pyval) list" where
  "namespace [] [] = Inr []"
| "namespace [] (x # pos) = Inl (SystemExit 2)"
| "namespace (Positional d # args) [] = Inl (SystemExit 2)"
| "namespace (Positional d # args) (x # pos) = bound (d, PStr x) (namespace args pos)"
| "namespace (Valued f d v # args) pos = bound (d, v) (namespace args pos)"
| "namespace (Store_true f d # args) pos = bound (d, PBool False) (namespace args pos)"
| "namespace (Store_false f d # args) pos = bound (d, PBool True) (namespace args pos)"

text \<open>
  A call \<^verbatim>\<open>f(**kwargs)\<close>: a key that is no parameter of \<open>f\<close> is a \<^verbatim>\<open>TypeError\<close>, and so
  is a parameter without default that no key gives; otherwise every parameter is bound.
\<close>

definition bind_kwargs ::
  "(string \<times> pyval option) list \<Rightarrow> (string \<times> pyval) list \<Rightarrow> error + (string \<times> pyval) list" where
  "bind_kwargs sig kwargs =
     (case find (\<lambda>(k, v). k \<notin> set (map fst sig)) kwargs of
        Some (k, v) \<Rightarrow> Inl (TypeError k)
      | None \<Rightarrow>
          (case find (\<lambda>(name, d). d = None \<and> name \<notin> set (map fst kwargs)) sig of
             Some (name, d) \<Rightarrow> Inl (TypeError name)
           | None \<Rightarrow>
               Inr (map (\<lambda>(name, d).
                      (name, case map_of kwargs name of Some v \<Rightarrow> v | None \<Rightarrow> the d)) sig)))"

text \<open>The last line of the launcher: \<^verbatim>\<open>training(**vars(args))\<close>.\<close>

definition launch :: "string list \<Rightarrow> error + (string \<times> pyval) list" where
  "launch pos =
     (case namespace parser pos of
        Inl e \<Rightarrow> Inl e
      | Inr kwargs \<Rightarrow> bind_kwargs training_signature kwargs)"

subsection \<open>Test data\<close>

text \<open>\<^verbatim>\<open>training(labels_dir, model_dir)\<close> with every default of the signature.\<close>

definition default_args :: "string \<Rightarrow> string \<Rightarrow> pyval training_args" where
  "default_args labels_dir' model_dir' =
     \<lparr> labels_dir = labels_dir',
       batchsize = PInt 1,
       n_channels = PInt 1,
       target_res = PNone,
       output_shape = PNone,
       prior_distributions = PStr ''uniform'',
       prior_means = PNone,
       prior_stds = PNone,
       use_specific_stats_for_channel = PBool False,
       mix_prior_and_random = PBool False,
       flipping = PBool True,
       scaling_bounds = PFloat (15 / 100),
       rotation_bounds = PInt 15,
       shearing_bounds = PFloat (12 / 1000),
       translation_bounds = PBool False,
       nonlin_std = PFloat 4,
       nonlin_shape_factor = PFloat (4 / 100),
       randomise_res = PBool False,
       buil_distance_maps = PBool False,
       data_res = PNone,
       thickness = PNone,
       downsample = PBool False,
       blur_range = PFloat (115 / 100),
       bias_field_std = PFloat (5 / 10),
       bias_shape_factor = PFloat (25 / 1000),
       model_dir = model_dir',
       path_generation_labels = None,
       path_segmentation_labels = None,
       save_generation_labels = None,
       path_generation_classes = PNone,
       n_levels = 5,
       nb_conv_per_level = PInt 2,
       conv_size = PInt 3,
       unet_feat_count = PInt 24,
       feat_multiplier = PInt 2,
       dropout = PInt 0,
       activation = PStr ''elu'',
       lr = PFloat (1 / 10000),
       lr_decay = PInt 0,
       wl2_epochs = 5,
       dice_epochs = 100,
       steps_per_epoch = PInt 1000,
       load_model_file = None,
       initial_epoch_wl2 = 0,
       initial_epoch_dice = 0 \<rparr>"

text \<open>
  Collaborators for the tests: four labels, one of them neutral; a generator whose
  output shape is five times the divisor it is given; no call raises; the training logs
  have no entry for a field of a file path.
\<close>

definition test_env :: "pyval env" where
  "test_env =
     \<lparr> get_list_labels = (\<lambda>label_list labels_dir' save_label_list FS_sort.
         (case label_list of Some _ \<Rightarrow> ([0, 2, 3], 0) | None \<Rightarrow> ([0, 2, 3, 4], 1))),
       BrainGenerator = (\<lambda>kwargs.
         \<lparr> model_output_shape =
             (case output_div_by_n kwargs of
                PyInt n \<Rightarrow> [5 * n, 5 * n, 5 * n]
              | PyFloat \<Rightarrow> [160, 160, 160]) \<rparr>),
       raises = (\<lambda>tr ev. None),
       format_field = (\<lambda>rest n. Inl KeyError) \<rparr>"





definition scenario_both :: "pyval training_args" where
  "scenario_both = (default_args ''labels'' ''models'')
          \<lparr>wl2_epochs := 1, dice_epochs := 2, load_model_file := Some ''prior.h5''\<rparr>"

definition scenario_segmentation :: "pyval training_args" where
  "scenario_segmentation = (default_args ''labels'' ''models'')
          \<lparr>path_segmentation_labels := Some ''segmentation.npy'',
           wl2_epochs := 1, dice_epochs := 1\<rparr>"


text \<open>Model directories whose name holds a brace.\<close>

definition scenario_brace :: "pyval training_args" where
  "scenario_brace = (default_args ''labels'' ''m}'')
     \<lparr>wl2_epochs := 0, dice_epochs := 3, initial_epoch_dice := 1\<rparr>"

definition scenario_escaped :: "pyval training_args" where
  "scenario_escaped = (default_args ''labels'' ''m{{x}}'') \<lparr>wl2_epochs := 1, dice_epochs := 2\<rparr>"

definition scenario_resume :: "pyval training_args" where
  "scenario_resume = (default_args ''labels'' ''models'')
     \<lparr>wl2_epochs := 0, dice_epochs := 3, load_model_file := Some ''models/dice_001.h5'',
      initial_epoch_dice := 1\<rparr>"

section \<open>Proofs\<close>

subsection \<open>Every run makes a prefix of the straight-line calls\<close>

lemma fit_epochs_unfold:
  "fit_epochs env m epochs steps cbs epoch =
     (if epoch < epochs then
        and_then (ext env (Epoch m epoch steps) ())
          (\<lambda>_. and_then (on_epoch_end env m cbs epoch)
             (\<lambda>_. fit_epochs env m epochs steps cbs (epoch + 1)))
      else succeed ())"
  by (rule ext) (simp add: fit_epochs.simps [of env m epochs steps cbs epoch] and_then_def succeed_def
      split: prod.splits sum.splits)

lemma performs_succeed: "performs [] x (succeed x)"
  by (simp add: performs_def succeed_def)

lemma performs_throw: "performs evs v (throw e)"
  by (auto simp: performs_def throw_def intro: exI [of _ 0])

lemma performs_ext: "performs [ev] x (ext env ev x)"
  by (auto simp: performs_def ext_def split: option.splits intro: exI [of _ 1])

lemma performs_and_then:
  assumes p: "performs evs v p" and f: "performs evs' w (f v)"
  shows "performs (evs @ evs') w (and_then p f)"
  unfolding performs_def
proof
  fix tr
  from p have "p tr = (tr @ evs, Inr v) \<or> (\<exists>k e. p tr = (tr @ take k evs, Inl e))"
    by (simp add: performs_def)
  then show "and_then p f tr = (tr @ evs @ evs', Inr w) \<or>
      (\<exists>k e. and_then p f tr = (tr @ take k (evs @ evs'), Inl e))"
  proof
    assume ok: "p tr = (tr @ evs, Inr v)"
    from f have "f v (tr @ evs) = ((tr @ evs) @ evs', Inr w) \<or>
        (\<exists>k e. f v (tr @ evs) = ((tr @ evs) @ take k evs', Inl e))"
      unfolding performs_def by blast
    then show ?thesis
    proof
      assume "f v (tr @ evs) = ((tr @ evs) @ evs', Inr w)"
      with ok show ?thesis by (simp add: and_then_def)
    next
      assume "\<exists>k e. f v (tr @ evs) = ((tr @ evs) @ take k evs', Inl e)"
      then obtain k e where "f v (tr @ evs) = ((tr @ evs) @ take k evs', Inl e)" by blast
      with ok have "and_then p f tr = (tr @ take (length evs + k) (evs @ evs'), Inl e)"
        by (simp add: and_then_def)
      then show ?thesis by blast
    qed
  next
    assume "\<exists>k e. p tr = (tr @ take k evs, Inl e)"
    then obtain k e where "p tr = (tr @ take k evs, Inl e)" by blast
    then have "and_then p f tr = (tr @ take (min k (length evs)) (evs @ evs'), Inl e)"
      by (simp add: and_then_def min_def)
    then show ?thesis by blast
  qed
qed

lemma performs_seq:
  "performs evs () p \<Longrightarrow> performs evs' w (f ()) \<Longrightarrow> performs (evs @ evs') w (and_then p f)"
  by (rule performs_and_then)

lemma performs_ext_then:
  "performs evs w (f x) \<Longrightarrow> performs (ev # evs) w (and_then (ext env ev x) f)"
  using performs_and_then [OF performs_ext, of evs w f x ev env] by simp

lemma performs_callback_epoch_end:
  "performs (callback_calls env m cb epoch) () (callback_epoch_end env m cb epoch)"
  by (cases cb) (auto simp: callback_calls_def performs_throw performs_ext split: sum.splits)

lemma performs_on_epoch_end:
  "performs (concat (map (\<lambda>cb. callback_calls env m cb epoch) cbs)) ()
     (on_epoch_end env m cbs epoch)"
  by (induction cbs)
    (auto intro!: performs_seq performs_succeed performs_callback_epoch_end)

lemma performs_fit_epochs:
  "performs (concat (map (epoch_calls env m steps cbs) [epoch..epochs - 1])) ()
     (fit_epochs env m epochs steps cbs epoch)"
proof (induction "nat (epochs - epoch)" arbitrary: epoch)
  case 0
  then have "\<not> epoch < epochs" by simp
  then show ?case
    by (subst fit_epochs_unfold) (simp add: performs_succeed)
next
  case (Suc n)
  then have lt: "epoch < epochs" and n: "n = nat (epochs - (epoch + 1))" by auto
  from lt have up: "[epoch..epochs - 1] = epoch # [epoch + 1..epochs - 1]"
    by (simp add: upto_rec1)
  have "performs (epoch_calls env m steps cbs epoch @
                  concat (map (epoch_calls env m steps cbs) [epoch + 1..epochs - 1])) ()
     (and_then (ext env (Epoch m epoch steps) ())
          (\<lambda>_. and_then (on_epoch_end env m cbs epoch)
             (\<lambda>_. fit_epochs env m epochs steps cbs (epoch + 1))))"
    unfolding epoch_calls_def [of env m steps cbs epoch] append_Cons
    by (intro performs_ext_then performs_seq performs_on_epoch_end Suc.hyps(1) [OF n])
  then show ?case
    by (subst fit_epochs_unfold) (simp add: lt up)
qed

lemma performs_train_model:
  "performs (train_model_calls env m l d n s md ld mt i) () (train_model env m l d n s md ld mt i)"
  unfolding train_model_def train_model_calls_def fit_generator_def Let_def fit_calls_def
  by (intro performs_ext_then performs_fit_epochs)

lemma performs_wl2_phase:
  "performs (wl2_calls env a sl ld) () (wl2_phase env a sl ld)"
proof (cases "wl2_epochs a > 0")
  case False
  then show ?thesis by (simp add: wl2_phase_def wl2_calls_def performs_succeed)
next
  case True
  have load: "performs (case load_model_file a of
           Some file \<Rightarrow> [Load_weights Wl2_model file False] | None \<Rightarrow> []) ()
        (case load_model_file a of
                          Some file \<Rightarrow> ext env (Load_weights Wl2_model file False) ()
                        | None \<Rightarrow> succeed ())"
    by (simp add: performs_ext performs_succeed split: option.splits)
  show ?thesis
    unfolding wl2_phase_def wl2_calls_def using True
    by (simp only: if_True)
      (intro performs_ext_then performs_seq load performs_train_model)
qed

lemma performs_dice_phase:
  "performs (dice_calls env a sl ld) () (dice_phase env a sl ld)"
proof (cases "dice_epochs a > 0")
  case False
  then show ?thesis by (simp add: dice_phase_def dice_calls_def performs_succeed)
next
  case True
  have load: "performs (if wl2_epochs a > 0
         then [Load_weights Dice_model
                 (os_path_join (model_dir a) (''wl2_'' @ pad3 (wl2_epochs a) @ ''.h5'')) True]
         else (case load_model_file a of
                 Some file \<Rightarrow> [Load_weights Dice_model file False] | None \<Rightarrow> [])) ()
        (if wl2_epochs a > 0 then
                  (let last_wl2_model_name =
                         os_path_join (model_dir a) (''wl2_'' @ pad3 (wl2_epochs a) @ ''.h5'')
                   in ext env (Load_weights Dice_model last_wl2_model_name True) ())
                else (case load_model_file a of
                        Some file \<Rightarrow> ext env (Load_weights Dice_model file False) ()
                      | None \<Rightarrow> succeed ()))"
    by (simp add: performs_ext performs_succeed Let_def split: option.splits)
  show ?thesis
    unfolding dice_phase_def dice_calls_def using True
    by (simp only: if_True)
      (intro performs_ext_then performs_seq load performs_train_model)
qed

lemma performs_build_and_train:
  assumes "sl = resolved_segmentation env a" "ld = os_path_join (model_dir a) ''logs''"
    "bg = BrainGenerator env (resolved_kwargs env a)"
  shows "performs (build_calls env a) () (build_and_train env a sl ld bg)"
  unfolding build_and_train_def build_calls_def Let_def assms
  by (intro performs_ext_then performs_seq performs_wl2_phase performs_dice_phase)

lemma performs_labels:
  "performs (case path_segmentation_labels a of
        Some path \<Rightarrow> [Get_list_labels (Some path) None None True] | None \<Rightarrow> []) 
      (resolved_segmentation env a)
      (case path_segmentation_labels a of
             Some path \<Rightarrow>
               and_then
                 (ext env (Get_list_labels (Some path) None None True)
                    (get_list_labels env (Some path) None None True))
                 (\<lambda>(segmentation_labels, _). succeed segmentation_labels)
           | None \<Rightarrow> succeed (fst (resolved_generation env a)))"
proof (cases "path_segmentation_labels a")
  case None
  then show ?thesis by (simp add: performs_succeed resolved_segmentation_def)
next
  case (Some path)
  have "performs ([Get_list_labels (Some path) None None True] @ [])
      (fst (get_list_labels env (Some path) None None True))
      (and_then
                 (ext env (Get_list_labels (Some path) None None True)
                    (get_list_labels env (Some path) None None True))
                 (\<lambda>(segmentation_labels, _). succeed segmentation_labels))"
    by (rule performs_and_then [OF performs_ext]) (simp add: performs_succeed split: prod.splits)
  with Some show ?thesis by (simp add: resolved_segmentation_def)
qed

lemma performs_training:
  "performs (all_calls env a) () (training env a)"
proof (cases "wl2_epochs a > 0 \<or> dice_epochs a > 0")
  case False
  then show ?thesis by (simp add: training_def all_calls_def performs_throw)
next
  case True
  obtain gl nn where g: "resolved_generation env a = (gl, nn)"
    by (cases "resolved_generation env a")
  have tail: "performs
      (Mkdir (model_dir a) # Mkdir (os_path_join (model_dir a) ''logs'') #
           New_BrainGenerator (resolved_kwargs env a) # build_calls env a) ()
      (and_then (ext env (Mkdir (model_dir a)) ())
        (\<lambda>_. let log_dir = os_path_join (model_dir a) ''logs'' in
        and_then (ext env (Mkdir log_dir) ())
        (\<lambda>_. let kwargs = generator_kwargs a gl nn (resolved_segmentation env a) in
        and_then (ext env (New_BrainGenerator kwargs) (BrainGenerator env kwargs))
        (\<lambda>brain_generator.
           build_and_train env a (resolved_segmentation env a) log_dir brain_generator))))"
    unfolding Let_def
    apply (intro performs_ext_then)
    using g apply (simp add: resolved_kwargs_def)
    apply (intro performs_ext_then)
    apply (rule performs_build_and_train)
    apply (simp_all add: resolved_kwargs_def g)
    done
  have labels: "performs (case path_segmentation_labels a of
        Some path \<Rightarrow> [Get_list_labels (Some path) None None True] | None \<Rightarrow> [])
      (resolved_segmentation env a)
      (case path_segmentation_labels a of
             Some path \<Rightarrow>
               and_then
                 (ext env (Get_list_labels (Some path) None None True)
                    (get_list_labels env (Some path) None None True))
                 (\<lambda>(segmentation_labels, _). succeed segmentation_labels)
           | None \<Rightarrow> succeed gl)"
    using performs_labels [of a env] unfolding g fst_conv .
  have "performs ([Get_list_labels (path_generation_labels a) (Some (labels_dir a))
       (save_generation_labels a) True] @ ((case path_segmentation_labels a of
        Some path \<Rightarrow> [Get_list_labels (Some path) None None True] | None \<Rightarrow> []) @
       (Mkdir (model_dir a) # Mkdir (os_path_join (model_dir a) ''logs'') #
           New_BrainGenerator (resolved_kwargs env a) # build_calls env a))) () (training env a)"
    unfolding training_def using True
    apply (simp only: not_True_eq_False if_False)
    apply (rule performs_and_then [OF performs_ext])
    apply (fold resolved_generation_def)
    apply (simp only: g prod.case)
    apply (rule performs_and_then [where v = "resolved_segmentation env a"])
    apply (rule labels)
    apply (rule tail)
    done
  then show ?thesis using True by (simp add: all_calls_def label_calls_def)
qed

subsection \<open>The epoch check\<close>

text \<open>
  Claim C2. When neither \<open>wl2_epochs\<close> nor \<open>dice_epochs\<close> is positive, \<^verbatim>\<open>training\<close>
  fails at its first statement: the run ends with the error of the epoch check (the
  \<^verbatim>\<open>assert\<close> of line 191, the spec's configuration error) and has made no call at all,
  so no label list was resolved, no directory created and no generator built.
\<close>

theorem no_phase_fails_before_any_call:
  "wl2_epochs a \<le> 0 \<Longrightarrow> dice_epochs a \<le> 0 \<Longrightarrow>
     run env a = ([], Inl (AssertionError (wl2_epochs a) (dice_epochs a)))"
  by (simp add: run_def training_def throw_def)

theorem no_phase_fails_before_any_call_witness:
  "run test_env ((default_args ''labels'' ''models'')\<lparr>wl2_epochs := 0, dice_epochs := 0\<rparr>)
     = ([], Inl (AssertionError 0 0))"
  using no_phase_fails_before_any_call
    [of "(default_args ''labels'' ''models'')\<lparr>wl2_epochs := 0, dice_epochs := 0\<rparr>" test_env]
  by simp

subsection \<open>What a run calls\<close>

lemma calls_take: "\<exists>k. calls env a = take k (all_calls env a)"
proof -
  from performs_training [of env a]
  have "training env a [] = ([] @ all_calls env a, Inr ()) \<or>
        (\<exists>k e. training env a [] = ([] @ take k (all_calls env a), Inl e))"
    unfolding performs_def by blast
  then show ?thesis
  proof
    assume "training env a [] = ([] @ all_calls env a, Inr ())"
    then have "calls env a = take (length (all_calls env a)) (all_calls env a)"
      by (simp add: calls_def run_def)
    then show ?thesis ..
  next
    assume "\<exists>k e. training env a [] = ([] @ take k (all_calls env a), Inl e)"
    then show ?thesis by (auto simp: calls_def run_def)
  qed
qed

lemma calls_complete: "completes env a \<Longrightarrow> calls env a = all_calls env a"
  using performs_training [of env a]
  by (auto simp: performs_def calls_def run_def completes_def dest!: spec [of _ "[]"])

lemma calls_subset: "set (calls env a) \<subseteq> set (all_calls env a)"
proof -
  obtain k where "calls env a = take k (all_calls env a)" using calls_take by blast
  then show ?thesis by (simp add: set_take_subset)
qed

lemma callback_calls_fit: "ev \<in> set (callback_calls env m cb e) \<Longrightarrow> fit_event ev"
  by (cases cb) (auto simp: callback_calls_def split: sum.splits if_splits)

lemma fit_calls_fit: "ev \<in> set (fit_calls env m n s cbs i) \<Longrightarrow> fit_event ev"
  by (auto simp: fit_calls_def epoch_calls_def dest: callback_calls_fit)

lemma concat_map_nil: "(\<And>x. x \<in> set xs \<Longrightarrow> f x = []) \<Longrightarrow> concat (map f xs) = []"
  by (induction xs) auto

lemma view_fit_calls:
  "(\<And>ev. fit_event ev \<Longrightarrow> f ev = []) \<Longrightarrow> concat (map f (fit_calls env m n s cbs i)) = []"
  by (rule concat_map_nil) (auto dest: fit_calls_fit)

lemma view_prefix:
  "prefix (concat (map f (calls env a))) (concat (map f (all_calls env a)))"
proof -
  obtain k where k: "calls env a = take k (all_calls env a)" using calls_take by blast
  have "concat (map f (all_calls env a)) =
        concat (map f (take k (all_calls env a))) @ concat (map f (drop k (all_calls env a)))"
    by (simp flip: concat_append map_append)
  then show ?thesis unfolding k by (metis prefixI)
qed

lemma completes_check: "completes env a \<Longrightarrow> wl2_epochs a > 0 \<or> dice_epochs a > 0"
  by (rule ccontr) (simp add: completes_def run_def training_def throw_def)

lemma view_subset:
  "set (concat (map f (calls env a))) \<subseteq> set (concat (map f (all_calls env a)))"
  using view_prefix [of f env a] by (rule set_mono_prefix)

lemma view_label_calls:
  "concat (map f (label_calls a)) =
     f (Get_list_labels (path_generation_labels a) (Some (labels_dir a))
          (save_generation_labels a) True) @
     (case path_segmentation_labels a of
        Some path \<Rightarrow> f (Get_list_labels (Some path) None None True) | None \<Rightarrow> [])"
  by (simp add: label_calls_def split: option.splits)

lemma view_train_model_calls:
  "concat (map f (train_model_calls env m l d n s dir ld mt i)) =
     f (Compile m l d IdentityLoss_loss [1]) @
     f (Fit_generator m n s (train_callbacks dir ld mt) i) @
     concat (map f (fit_calls env m n s (train_callbacks dir ld mt) i))"
  by (simp add: train_model_calls_def)

lemma view_wl2_calls:
  "concat (map f (wl2_calls env a sl ld)) =
     (if wl2_epochs a > 0 then
        f (New_Model ''unet_likelihood'') @
        f (Metrics_model Wl2_model sl Wl2_model (Some ''wl2'')) @
        (case load_model_file a of
           Some file \<Rightarrow> f (Load_weights Wl2_model file False) | None \<Rightarrow> []) @
        concat (map f (train_model_calls env Wl2_model (lr a) (lr_decay a) (wl2_epochs a)
          (steps_per_epoch a) (model_dir a) ld ''wl2'' (initial_epoch_wl2 a)))
      else [])"
  by (simp add: wl2_calls_def split: option.splits)

lemma view_dice_calls:
  "concat (map f (dice_calls env a sl ld)) =
     (if dice_epochs a > 0 then
        f (Metrics_model Dice_model sl Unet_model None) @
        (if wl2_epochs a > 0
         then f (Load_weights Dice_model
                 (os_path_join (model_dir a) (''wl2_'' @ pad3 (wl2_epochs a) @ ''.h5'')) True)
         else (case load_model_file a of
                 Some file \<Rightarrow> f (Load_weights Dice_model file False) | None \<Rightarrow> [])) @
        concat (map f (train_model_calls env Dice_model (lr a) (lr_decay a) (dice_epochs a)
          (steps_per_epoch a) (model_dir a) ld ''dice'' (initial_epoch_dice a)))
      else [])"
  by (simp add: dice_calls_def split: option.splits)

lemma view_build_calls:
  "concat (map f (build_calls env a)) =
     f (Unet (unet_feat_count a) (model_output_shape (BrainGenerator env (resolved_kwargs env a)))
       (n_levels a) (conv_size a) (int (length (resolved_segmentation env a)))
       (feat_multiplier a) (nb_conv_per_level a) (dropout a) (- 1) (activation a)) @
     f (Build_training_generator (batchsize a)) @
     concat (map f (wl2_calls env a (resolved_segmentation env a)
                      (os_path_join (model_dir a) ''logs''))) @
     concat (map f (dice_calls env a (resolved_segmentation env a)
                      (os_path_join (model_dir a) ''logs'')))"
  by (simp add: build_calls_def)

lemma view_all_calls:
  "concat (map f (all_calls env a)) =
     (if wl2_epochs a > 0 \<or> dice_epochs a > 0 then
        concat (map f (label_calls a)) @
        f (Mkdir (model_dir a)) @ f (Mkdir (os_path_join (model_dir a) ''logs'')) @
        f (New_BrainGenerator (resolved_kwargs env a)) @
        concat (map f (build_calls env a))
      else [])"
  by (simp add: all_calls_def)

lemmas view_calls = view_all_calls view_build_calls view_wl2_calls view_dice_calls
  view_train_model_calls view_label_calls view_fit_calls

lemma load_of_fit: "fit_event ev \<Longrightarrow> load_of m ev = []"
  by (cases ev) simp_all

lemma loads_train_model_calls: "loads m' (train_model_calls env m l d n s dir ld mt i) = []"
  by (simp add: loads_def train_model_calls_def view_fit_calls load_of_fit)

lemma loads_append: "loads m (xs @ ys) = loads m xs @ loads m ys"
  by (simp add: loads_def)

lemma loads_Cons: "loads m (ev # xs) = load_of m ev @ loads m xs"
  by (simp add: loads_def)

lemma loads_Nil: "loads m [] = []"
  by (simp add: loads_def)

lemma loads_label_calls: "loads m (label_calls a) = []"
  by (simp add: label_calls_def loads_Cons loads_Nil split: option.splits)

lemma loads_wl2_calls:
  "loads m (wl2_calls env a sl ld) =
     (if wl2_epochs a > 0 \<and> m = Wl2_model
      then (case load_model_file a of Some file \<Rightarrow> [(file, False)] | None \<Rightarrow> []) else [])"
  by (simp add: wl2_calls_def loads_Cons loads_append loads_Nil loads_train_model_calls
      split: option.splits)

lemma loads_dice_calls:
  "loads m (dice_calls env a sl ld) =
     (if dice_epochs a > 0 \<and> m = Dice_model then
        (if wl2_epochs a > 0
         then [(os_path_join (model_dir a) (''wl2_'' @ pad3 (wl2_epochs a) @ ''.h5''), True)]
         else (case load_model_file a of Some file \<Rightarrow> [(file, False)] | None \<Rightarrow> []))
      else [])"
  by (simp add: dice_calls_def loads_Cons loads_append loads_Nil loads_train_model_calls
      split: option.splits)

lemma loads_all_calls:
  "loads m (all_calls env a) =
     loads m (wl2_calls env a (resolved_segmentation env a) (os_path_join (model_dir a) ''logs'')) @
     loads m (dice_calls env a (resolved_segmentation env a) (os_path_join (model_dir a) ''logs''))"
  by (simp add: all_calls_def build_calls_def loads_Cons loads_append loads_Nil
      loads_label_calls wl2_calls_def dice_calls_def)

subsection \<open>The test scenarios\<close>


lemma scenario_both_fields:
  "wl2_epochs scenario_both = 1" "dice_epochs scenario_both = 2" "n_levels scenario_both = 5" "model_dir scenario_both = ''models''"
  "load_model_file scenario_both = Some ''prior.h5''" "initial_epoch_dice scenario_both = 0"
  by (simp_all add: scenario_both_def default_args_def)


lemma scenario_both_completes: "completes test_env scenario_both"
  by code_simp

lemma scenario_segmentation_completes: "completes test_env scenario_segmentation"
  by code_simp

lemma scenario_both_loads:
  "loads Wl2_model (calls test_env scenario_both) = [(''prior.h5'', False)]"
  "loads Dice_model (calls test_env scenario_both) = [(''models/wl2_001.h5'', True)]"
  by code_simp+

lemma scenario_both_unets: "unets (calls test_env scenario_both) = [([160, 160, 160], 5)]"
  by code_simp

lemma scenario_resume_completes: "completes test_env scenario_resume"
  by code_simp

lemma scenario_resume_fields:
  "initial_epoch_dice scenario_resume = 1" "dice_epochs scenario_resume = 3"
  "model_dir scenario_resume = ''models''"
  by (simp_all add: scenario_resume_def default_args_def)

lemma pad3_examples: "pad3 1 = ''001''" "pad3 2 = ''002''" "pad3 3 = ''003''"
  by code_simp+

lemma scenario_both_epochs:
  "epochs_run Wl2_model (calls test_env scenario_both) = [0]"
  "epochs_run Dice_model (calls test_env scenario_both) = [0, 1]"
  by code_simp+

subsection \<open>The claims\<close>



lemma strict_loads:
  "xs = (if 0 < (w :: int)
         then (case l of Some file \<Rightarrow> [(file, False)] | None \<Rightarrow> []) else []) \<Longrightarrow>
   \<forall>(file, by_name) \<in> set xs. l = Some file \<and> \<not> by_name"
  by (cases "0 < w"; cases l; simp)

lemma handoff_loads:
  "xs = (if 0 < (d :: int) then
           (if 0 < (w :: int) then [(c, True)]
            else (case l of Some file \<Rightarrow> [(file, False)] | None \<Rightarrow> []))
         else []) \<Longrightarrow>
   \<forall>(file, by_name) \<in> set xs.
      (if 0 < w then file = c \<and> by_name else l = Some file \<and> \<not> by_name)"
  by (cases "0 < d"; cases "0 < w"; cases l; simp)

text \<open>
  Claim C10. In every run, each load of weights into the warm-up model is a load of
  \<open>load_model_file\<close> without \<^verbatim>\<open>by_name\<close>; each load into the dice model is, when the
  warm-up ran, the load by name of the final warm-up checkpoint, and otherwise a load of
  \<open>load_model_file\<close> without \<^verbatim>\<open>by_name\<close>. So \<^verbatim>\<open>by_name=True\<close> is used for the
  handoff between the phases and for nothing else. (What Keras does with a file whose
  layers differ from the model's is outside the driver.)
\<close>

theorem external_checkpoint_strict:
  "(\<forall>(file, by_name) \<in> set (loads Wl2_model (calls env a)).
       load_model_file a = Some file \<and> \<not> by_name) \<and>
   (\<forall>(file, by_name) \<in> set (loads Dice_model (calls env a)).
       (if wl2_epochs a > 0
        then file = checkpoint_file (model_dir a) ''wl2'' (wl2_epochs a) \<and> by_name
        else load_model_file a = Some file \<and> \<not> by_name))"
proof -
  have sub: "set (loads m (calls env a)) \<subseteq> set (loads m (all_calls env a))" for m
    using view_subset [of "load_of m" env a] by (simp add: loads_def)
  have "loads Wl2_model (all_calls env a) =
      (if wl2_epochs a > 0
       then (case load_model_file a of Some file \<Rightarrow> [(file, False)] | None \<Rightarrow> []) else [])"
    by (simp add: loads_all_calls loads_wl2_calls loads_dice_calls)
  then have w: "\<forall>(file, by_name) \<in> set (loads Wl2_model (all_calls env a)).
       load_model_file a = Some file \<and> \<not> by_name"
    by (rule strict_loads)
  have "loads Dice_model (all_calls env a) =
      (if dice_epochs a > 0 then
        (if wl2_epochs a > 0
         then [(checkpoint_file (model_dir a) ''wl2'' (wl2_epochs a), True)]
         else (case load_model_file a of Some file \<Rightarrow> [(file, False)] | None \<Rightarrow> []))
      else [])"
    by (simp add: loads_all_calls loads_wl2_calls loads_dice_calls checkpoint_file_def)
  then have d: "\<forall>(file, by_name) \<in> set (loads Dice_model (all_calls env a)).
       (if wl2_epochs a > 0
        then file = checkpoint_file (model_dir a) ''wl2'' (wl2_epochs a) \<and> by_name
        else load_model_file a = Some file \<and> \<not> by_name)"
    by (rule handoff_loads)
  from w d sub show ?thesis by blast
qed

theorem external_checkpoint_strict_witness:
  "loads Wl2_model (calls test_env scenario_both) = [(''prior.h5'', False)] \<and>
   load_model_file scenario_both = Some ''prior.h5'' \<and>
   loads Dice_model (calls test_env scenario_both) = [(''models/wl2_001.h5'', True)] \<and>
   checkpoint_file (model_dir scenario_both) ''wl2'' (wl2_epochs scenario_both) =
     ''models/wl2_001.h5''"
  using external_checkpoint_strict [of test_env scenario_both]
  by (simp add: scenario_both_loads scenario_both_fields)

lemma compile_of_fit: "fit_event ev \<Longrightarrow> compile_of ev = []"
  by (cases ev) simp_all

lemma compiles_all_calls:
  "compiles (all_calls env a) =
     (if wl2_epochs a > 0 then [(Wl2_model, IdentityLoss_loss, [1])] else []) @
     (if dice_epochs a > 0 then [(Dice_model, IdentityLoss_loss, [1])] else [])"
  by (simp add: compiles_def view_calls compile_of_fit split: option.splits)

text \<open>
  Claim C9. Every compile step of a run, in either phase, is given the identity loss
  and the loss weights \<^verbatim>\<open>[1.0]\<close>, and the identity loss returns the value the wrapped
  model computed, unchanged. A run that completes compiles once per phase that runs.
\<close>

theorem identity_loss_at_compile:
  "(\<forall>(m, lo, weights) \<in> set (compiles (calls env a)).
       lo = IdentityLoss_loss \<and> weights = [1] \<and>
       (\<forall>y_true y_predicted :: 'y. apply_loss lo y_true y_predicted = y_predicted)) \<and>
   (completes env a \<longrightarrow>
      compiles (calls env a) =
        (if wl2_epochs a > 0 then [(Wl2_model, IdentityLoss_loss, [1])] else []) @
        (if dice_epochs a > 0 then [(Dice_model, IdentityLoss_loss, [1])] else []))"
proof -
  have sub: "set (compiles (calls env a)) \<subseteq> set (compiles (all_calls env a))"
    using view_subset [of compile_of env a] by (simp add: compiles_def)
  have "\<forall>(m, lo, weights) \<in> set (compiles (all_calls env a)).
       lo = IdentityLoss_loss \<and> weights = [1] \<and>
       (\<forall>y_true y_predicted :: 'y. apply_loss lo y_true y_predicted = y_predicted)"
    by (auto simp: compiles_all_calls)
  with sub have "\<forall>(m, lo, weights) \<in> set (compiles (calls env a)).
       lo = IdentityLoss_loss \<and> weights = [1] \<and>
       (\<forall>y_true y_predicted :: 'y. apply_loss lo y_true y_predicted = y_predicted)"
    by blast
  then show ?thesis
    using calls_complete [of env a] by (simp add: compiles_all_calls)
qed

lemma generator_of_fit: "fit_event ev \<Longrightarrow> generator_of ev = []"
  by (cases ev) simp_all

lemma generators_all_calls:
  "generators (all_calls env a) =
     (if wl2_epochs a > 0 \<or> dice_epochs a > 0 then [resolved_kwargs env a] else [])"
  by (simp add: generators_def view_calls generator_of_fit split: option.splits)

lemma resolved_kwargs_sel:
  "generation_labels (resolved_kwargs env a) = fst (resolved_generation env a)"
  "n_neutral_labels (resolved_kwargs env a) = snd (resolved_generation env a)"
  "output_labels (resolved_kwargs env a) = resolved_segmentation env a"
  "output_div_by_n (resolved_kwargs env a) = pow2 (n_levels a)"
  by (simp_all add: resolved_kwargs_def generator_kwargs_def)

text \<open>
  Claim C7. The generator is built with the generation labels and the neutral-label
  count of the first call of \<^verbatim>\<open>get_list_labels\<close>. Its output labels are the generation
  labels themselves when \<open>path_segmentation_labels\<close> is \<^verbatim>\<open>None\<close>, and otherwise the
  list resolved from \<open>path_segmentation_labels\<close>, whose own neutral count is dropped.
\<close>

theorem segmentation_label_defaulting:
  "(\<forall>g \<in> set (generators (calls env a)).
       (generation_labels g, n_neutral_labels g) =
          get_list_labels env (path_generation_labels a) (Some (labels_dir a))
            (save_generation_labels a) True \<and>
       output_labels g =
          (case path_segmentation_labels a of
             None \<Rightarrow> generation_labels g
           | Some path \<Rightarrow> fst (get_list_labels env (Some path) None None True))) \<and>
   (completes env a \<longrightarrow> length (generators (calls env a)) = 1)"
proof -
  have sub: "set (generators (calls env a)) \<subseteq> set (generators (all_calls env a))"
    using view_subset [of generator_of env a] by (simp add: generators_def)
  have "\<forall>g \<in> set (generators (all_calls env a)).
       (generation_labels g, n_neutral_labels g) =
          get_list_labels env (path_generation_labels a) (Some (labels_dir a))
            (save_generation_labels a) True \<and>
       output_labels g =
          (case path_segmentation_labels a of
             None \<Rightarrow> generation_labels g
           | Some path \<Rightarrow> fst (get_list_labels env (Some path) None None True))"
    by (simp add: generators_all_calls resolved_kwargs_sel resolved_generation_def
        resolved_segmentation_def split: option.splits)
  with sub have "\<forall>g \<in> set (generators (calls env a)).
       (generation_labels g, n_neutral_labels g) =
          get_list_labels env (path_generation_labels a) (Some (labels_dir a))
            (save_generation_labels a) True \<and>
       output_labels g =
          (case path_segmentation_labels a of
             None \<Rightarrow> generation_labels g
           | Some path \<Rightarrow> fst (get_list_labels env (Some path) None None True))"
    by blast
  moreover have "completes env a \<longrightarrow> length (generators (calls env a)) = 1"
    using calls_complete [of env a] completes_check [of env a]
    by (auto simp: generators_all_calls)
  ultimately show ?thesis by blast
qed

lemma unet_of_fit: "fit_event ev \<Longrightarrow> unet_of ev = []"
  by (cases ev) simp_all

lemma unets_all_calls:
  "unets (all_calls env a) =
     (if wl2_epochs a > 0 \<or> dice_epochs a > 0
      then [(model_output_shape (BrainGenerator env (resolved_kwargs env a)), n_levels a)]
      else [])"
  by (simp add: unets_def view_calls unet_of_fit split: option.splits)

text \<open>
  Claim C8. The generator is built with \<^verbatim>\<open>output_div_by_n = 2 ** n_levels\<close>. For a
  generator that makes its output shape divisible by the divisor it is given, the input
  shape of the network, which has \<open>n_levels\<close> levels, is divisible by \<open>2 ^ n_levels\<close> in
  every dimension.
\<close>

theorem generator_divisor_power_of_two:
  assumes contract: "\<And>g n. output_div_by_n g = PyInt n \<Longrightarrow>
             \<forall>d \<in> set (model_output_shape (BrainGenerator env g)). n dvd d"
    and levels: "0 \<le> n_levels a"
  shows "(\<forall>g \<in> set (generators (calls env a)).
            output_div_by_n g = pow2 (n_levels a) \<and>
            output_div_by_n g = PyInt (2 ^ nat (n_levels a))) \<and>
         (\<forall>(shape, levels) \<in> set (unets (calls env a)).
            levels = n_levels a \<and> (\<forall>d \<in> set shape. 2 ^ nat (n_levels a) dvd d))"
proof -
  have subg: "set (generators (calls env a)) \<subseteq> set (generators (all_calls env a))"
    using view_subset [of generator_of env a] by (simp add: generators_def)
  have subu: "set (unets (calls env a)) \<subseteq> set (unets (all_calls env a))"
    using view_subset [of unet_of env a] by (simp add: unets_def)
  have p: "pow2 (n_levels a) = PyInt (2 ^ nat (n_levels a))"
    using levels by (simp add: pow2_def)
  have g: "\<forall>g \<in> set (generators (all_calls env a)).
            output_div_by_n g = pow2 (n_levels a) \<and>
            output_div_by_n g = PyInt (2 ^ nat (n_levels a))"
    by (simp add: generators_all_calls resolved_kwargs_sel p)
  have "output_div_by_n (resolved_kwargs env a) = PyInt (2 ^ nat (n_levels a))"
    by (simp add: resolved_kwargs_sel p)
  from contract [OF this]
  have u: "\<forall>(shape, levels) \<in> set (unets (all_calls env a)).
            levels = n_levels a \<and> (\<forall>d \<in> set shape. 2 ^ nat (n_levels a) dvd d)"
    by (simp add: unets_all_calls)
  from g u subg subu show ?thesis by blast
qed

theorem identity_loss_at_compile_witness:
  "completes test_env scenario_both \<and>
   compiles (calls test_env scenario_both) =
     [(Wl2_model, IdentityLoss_loss, [1]), (Dice_model, IdentityLoss_loss, [1])]"
  using identity_loss_at_compile [of test_env scenario_both] scenario_both_completes by (auto simp: scenario_both_fields)

lemma singleton_map: "length xs = 1 \<Longrightarrow> \<forall>x \<in> set xs. f x = v \<Longrightarrow> map f xs = [v]"
  by (cases xs) auto

theorem segmentation_label_defaulting_witness:
  "completes test_env scenario_segmentation \<and>
   map generation_labels (generators (calls test_env scenario_segmentation)) = [[0, 2, 3, 4]] \<and>
   map n_neutral_labels (generators (calls test_env scenario_segmentation)) = [1] \<and>
   map output_labels (generators (calls test_env scenario_segmentation)) = [[0, 2, 3]]"
proof -
  note c = scenario_segmentation_completes
  from segmentation_label_defaulting [of test_env scenario_segmentation] c
  have len: "length (generators (calls test_env scenario_segmentation)) = 1"
    and all: "\<forall>g \<in> set (generators (calls test_env scenario_segmentation)).
      generation_labels g = [0, 2, 3, 4] \<and> n_neutral_labels g = 1 \<and> output_labels g = [0, 2, 3]"
    by (simp_all add: scenario_segmentation_def default_args_def test_env_def)
  from c len all show ?thesis by (simp add: singleton_map)
qed

theorem generator_divisor_power_of_two_witness:
  "0 \<le> n_levels scenario_both \<and>
   unets (calls test_env scenario_both) = [([160, 160, 160], 5)] \<and>
   (2 :: int) ^ nat (n_levels scenario_both) dvd 160"
proof -
  have contract: "\<And>g n. output_div_by_n g = PyInt n \<Longrightarrow>
             \<forall>d \<in> set (model_output_shape (BrainGenerator test_env g)). n dvd d"
    by (simp add: test_env_def)
  have levels: "0 \<le> n_levels scenario_both" by (simp add: scenario_both_fields)
  from generator_divisor_power_of_two [of test_env scenario_both, OF contract levels] levels
  show ?thesis
    unfolding scenario_both_unets by simp
qed






lemma view_take_nil: "concat (map f xs) = [] \<Longrightarrow> concat (map f (take k xs)) = []"
  by (auto dest: in_set_takeD)


















text \<open>
  Claim C4 does not hold of the launcher. A command line with the two positional
  arguments and no option parses; its namespace has the keys \<^verbatim>\<open>build_distance_maps\<close> and
  \<^verbatim>\<open>checkpoint\<close>, which are no parameters of \<^verbatim>\<open>training\<close>, so the call
  \<^verbatim>\<open>training(**vars(args))\<close> raises a \<^verbatim>\<open>TypeError\<close>; and the defaults of \<^verbatim>\<open>--nonlin_std\<close>
  (3.0) and \<^verbatim>\<open>--blur_range\<close> (1.03) differ from the documented 4.0 and 1.15. With any
  other number of positional arguments \<^verbatim>\<open>argparse\<close> exits before the call; so no
  invocation without options reaches the body of \<^verbatim>\<open>training\<close>.
\<close>

theorem launcher_call_rejected:
  "launch pos =
     Inl (if length pos = 2 then TypeError ''build_distance_maps'' else SystemExit 2) \<and>
   (\<exists>kwargs. namespace parser [l, m] = Inr kwargs \<and>
      map_of kwargs ''checkpoint'' = Some PNone \<and>
      map_of kwargs ''nonlin_std'' = Some (PFloat 3) \<and>
      map_of kwargs ''blur_range'' = Some (PFloat (103 / 100))) \<and>
   map_of training_signature ''build_distance_maps'' = None \<and>
   map_of training_signature ''checkpoint'' = None \<and>
   map_of training_signature ''nonlin_std'' = Some (Some (PFloat 4)) \<and>
   map_of training_signature ''blur_range'' = Some (Some (PFloat (115 / 100)))"
proof -
  have "launch pos = Inl (if length pos = 2 then TypeError ''build_distance_maps'' else SystemExit 2)"
  proof (cases pos)
    case Nil
    then show ?thesis by (simp add: launch_def parser_def bound_def)
  next
    case 1: (Cons x xs)
    show ?thesis
    proof (cases xs)
      case Nil
      with 1 show ?thesis by (simp add: launch_def parser_def bound_def)
    next
      case 2: (Cons y ys)
      show ?thesis
      proof (cases ys)
        case Nil
        with 1 2 show ?thesis
          by (simp add: launch_def parser_def bound_def bind_kwargs_def training_signature_def)
      next
        case (Cons z zs)
        with 1 2 show ?thesis by (simp add: launch_def parser_def bound_def)
      qed
    qed
  qed
  moreover have "\<exists>kwargs. namespace parser [l, m] = Inr kwargs \<and>
      map_of kwargs ''checkpoint'' = Some PNone \<and>
      map_of kwargs ''nonlin_std'' = Some (PFloat 3) \<and>
      map_of kwargs ''blur_range'' = Some (PFloat (103 / 100))"
    by (simp add: parser_def bound_def)
  ultimately show ?thesis by (simp add: training_signature_def)
qed

subsection \<open>Epochs and checkpoints\<close>

lemma put_Nil: "put [] r = r"
  by (cases r) (simp_all add: put_def)

lemma put_put: "put s (put t r) = put (s @ t) r"
  by (cases r) (simp_all add: put_def)

lemma format_epoch_examples:
  "format_epoch (\<lambda>rest n. Inl KeyError) ''w_{epoch}.h5'' 7 = Inr ''w_7.h5''"
  "format_epoch (\<lambda>rest n. Inl KeyError) ''w_{epoch:03d}.h5'' 7 = Inr ''w_007.h5''"
  "format_epoch (\<lambda>rest n. Inl KeyError) ''{{w}}'' 7 = Inr ''{w}''"
  "format_epoch (\<lambda>rest n. Inl KeyError) ''w{'' 7 = Inl ValueError"
  "format_epoch (\<lambda>rest n. Inl KeyError) ''w}'' 7 = Inl ValueError"
  "format_epoch (\<lambda>rest n. Inl KeyError) ''w_{loss}.h5'' 7 = Inl KeyError"
  "format_epoch (\<lambda>rest n. Inr (''0.25'' @ drop 5 rest)) ''w_{loss}.h5'' 7 = Inr ''w_0.25.h5''"
  by code_simp+

lemma format_epoch_plain:
  "braceless s \<Longrightarrow> format_epoch other (s @ t) n = put s (format_epoch other t n)"
proof (induction s)
  case Nil
  then show ?case by (simp add: put_Nil)
next
  case (Cons c s)
  then have "braceless s" "c \<noteq> CHR ''{''" "c \<noteq> CHR ''}''"
    by (auto simp: braceless_def)
  with Cons.IH show ?case by (simp add: put_put)
qed

lemma format_epoch_field:
  "format_epoch other ''_{epoch:03d}.h5'' n = Inr (''_'' @ pad3 n @ ''.h5'')"
  by (simp add: put_def)

lemma braceless_append: "braceless (s @ t) \<longleftrightarrow> braceless s \<and> braceless t"
  by (auto simp: braceless_def)

lemma os_path_join_relative:
  "b \<noteq> [] \<Longrightarrow> hd b \<noteq> CHR ''/'' \<Longrightarrow>
   os_path_join a b = (if a = [] \<or> last a = CHR ''/'' then a else a @ ''/'') @ b"
  by (simp add: os_path_join_def)

lemma format_checkpoint:
  assumes "braceless dir" "tag = ''wl2'' \<or> tag = ''dice''"
  shows "format_epoch other (os_path_join dir (tag @ ''_{epoch:03d}.h5'')) n =
         Inr (checkpoint_file dir tag n)"
proof -
  let ?pre = "(if dir = [] \<or> last dir = CHR ''/'' then dir else dir @ ''/'') @ tag"
  have b: "braceless ?pre"
    using assms by (auto simp: braceless_append) (simp_all add: braceless_def)
  have 1: "os_path_join dir (tag @ ''_{epoch:03d}.h5'') = ?pre @ ''_{epoch:03d}.h5''"
    using assms(2) by (subst os_path_join_relative) auto
  have 2: "checkpoint_file dir tag n = ?pre @ ''_'' @ pad3 n @ ''.h5''"
    unfolding checkpoint_file_def using assms(2) by (subst os_path_join_relative) auto
  show ?thesis
    unfolding 1 2 format_epoch_plain [OF b] format_epoch_field by (simp add: put_def)
qed

lemma format_checkpoint_wl2:
  "braceless dir \<Longrightarrow>
   format_epoch other (os_path_join dir ''wl2_{epoch:03d}.h5'') n = Inr (checkpoint_file dir ''wl2'' n)"
  using format_checkpoint [of dir "''wl2''" other n] by simp

lemma format_checkpoint_dice:
  "braceless dir \<Longrightarrow>
   format_epoch other (os_path_join dir ''dice_{epoch:03d}.h5'') n = Inr (checkpoint_file dir ''dice'' n)"
  using format_checkpoint [of dir "''dice''" other n] by simp

lemma epoch_calls_wl2:
  "braceless dir \<Longrightarrow>
   epoch_calls env m steps (train_callbacks dir ld ''wl2'') e =
     [Epoch m e steps, Save_weights m (checkpoint_file dir ''wl2'' (e + 1))]"
  by (simp add: epoch_calls_def train_callbacks_def callback_calls_def format_checkpoint_wl2
      format_checkpoint_dice)

lemma epoch_calls_dice:
  "braceless dir \<Longrightarrow>
   epoch_calls env m steps (train_callbacks dir ld ''dice'') e =
     [Epoch m e steps, Save_weights m (checkpoint_file dir ''dice'' (e + 1)),
      TensorBoard_log ld e]"
  by (simp add: epoch_calls_def train_callbacks_def callback_calls_def format_checkpoint_wl2
      format_checkpoint_dice)

lemma view_concat_map:
  "concat (map f (concat (map g xs))) = concat (map (\<lambda>x. concat (map f (g x))) xs)"
  by (induction xs) simp_all

lemma callback_calls_no_epoch:
  "concat (map (epoch_of m') (callback_calls env m cb e)) = []"
  by (cases cb) (auto simp: callback_calls_def split: sum.splits)

lemma epochs_fit_calls:
  "epochs_run m' (fit_calls env m n s cbs i) = (if m' = m then [i..n - 1] else [])"
proof -
  have "concat (map (epoch_of m') (epoch_calls env m s cbs e)) = (if m' = m then [e] else [])" for e
    by (simp add: epoch_calls_def view_concat_map callback_calls_no_epoch)
  then show ?thesis
    by (simp add: epochs_run_def fit_calls_def view_concat_map)
qed

lemma checkpoints_fit_calls:
  assumes "braceless dir" "tag = ''wl2'' \<or> tag = ''dice''"
  shows "checkpoints m' (fit_calls env m n s (train_callbacks dir ld tag) i) =
     (if m' = m then map (\<lambda>e. checkpoint_file dir tag (e + 1)) [i..n - 1] else [])"
proof -
  have "concat (map (save_of m') (epoch_calls env m s (train_callbacks dir ld tag) e)) =
        (if m' = m then [checkpoint_file dir tag (e + 1)] else [])" for e
    using assms by (auto simp: epoch_calls_wl2 epoch_calls_dice)
  then show ?thesis
    by (simp add: checkpoints_def fit_calls_def view_concat_map)
qed

lemma epoch_of_simple:
  "epoch_of m (Compile m' l d lo w) = []" "epoch_of m (Fit_generator m' n s cbs i) = []"
  by simp_all

lemma epochs_train_model_calls:
  "epochs_run m' (train_model_calls env m l d n s dir ld mt i) = (if m' = m then [i..n - 1] else [])"
  using epochs_fit_calls [of m' env m n s "train_callbacks dir ld mt" i]
  by (simp add: epochs_run_def view_train_model_calls)

lemma checkpoints_train_model_calls:
  assumes "braceless dir" "tag = ''wl2'' \<or> tag = ''dice''"
  shows "checkpoints m' (train_model_calls env m l d n s dir ld tag i) =
     (if m' = m then map (\<lambda>e. checkpoint_file dir tag (e + 1)) [i..n - 1] else [])"
  using checkpoints_fit_calls [OF assms, of m' env m n s ld i]
  by (simp add: checkpoints_def view_train_model_calls)

lemma epochs_all_calls:
  "epochs_run m (all_calls env a) =
     (if m = Wl2_model \<and> wl2_epochs a > 0 then [initial_epoch_wl2 a..wl2_epochs a - 1] else []) @
     (if m = Dice_model \<and> dice_epochs a > 0 then [initial_epoch_dice a..dice_epochs a - 1] else [])"
proof -
  have t: "concat (map (epoch_of m) (train_model_calls env m' l d n s dir ld mt i)) =
     (if m = m' then [i..n - 1] else [])" for m' l d n s dir ld mt i
    using epochs_train_model_calls [of m env m' l d n s dir ld mt i] by (simp add: epochs_run_def)
  show ?thesis
    unfolding epochs_run_def view_all_calls view_build_calls view_wl2_calls view_dice_calls
      view_label_calls t
    by (simp split: option.splits)
qed

lemma checkpoints_all_calls:
  assumes "braceless (model_dir a)"
  shows "checkpoints m (all_calls env a) =
     (if m = Wl2_model \<and> wl2_epochs a > 0
      then map (\<lambda>e. checkpoint_file (model_dir a) ''wl2'' (e + 1))
             [initial_epoch_wl2 a..wl2_epochs a - 1] else []) @
     (if m = Dice_model \<and> dice_epochs a > 0
      then map (\<lambda>e. checkpoint_file (model_dir a) ''dice'' (e + 1))
             [initial_epoch_dice a..dice_epochs a - 1] else [])"
proof -
  have w: "concat (map (save_of m) (train_model_calls env m' l d n s (model_dir a) ld ''wl2'' i)) =
     (if m = m' then map (\<lambda>e. checkpoint_file (model_dir a) ''wl2'' (e + 1)) [i..n - 1] else [])"
    for m' l d n s ld i
    using checkpoints_train_model_calls [OF assms, of "''wl2''" m env m' l d n s ld i]
    by (simp add: checkpoints_def)
  have d: "concat (map (save_of m) (train_model_calls env m' l d n s (model_dir a) ld ''dice'' i)) =
     (if m = m' then map (\<lambda>e. checkpoint_file (model_dir a) ''dice'' (e + 1)) [i..n - 1] else [])"
    for m' l d n s ld i
    using checkpoints_train_model_calls [OF assms, of "''dice''" m env m' l d n s ld i]
    by (simp add: checkpoints_def)
  show ?thesis
    unfolding checkpoints_def view_all_calls view_build_calls view_wl2_calls view_dice_calls
      view_label_calls w d
    by (simp split: option.splits)
qed

lemma map_Suc_upto: "map (\<lambda>e. g (e + 1)) [i..j - 1] = map g [i + 1..j]"
proof (induction "nat (j - i)" arbitrary: i)
  case 0
  then show ?case by simp
next
  case (Suc n)
  then have lt: "i < j" and n: "n = nat (j - (i + 1))" by auto
  from lt have "[i..j - 1] = i # [i + 1..j - 1]" "[i + 1..j] = (i + 1) # [i + 1 + 1..j]"
    by (simp_all add: upto_rec1)
  with Suc.hyps(1) [OF n] show ?case by simp
qed

text \<open>
  Where the model directory holds no brace, a run that completes, started with
  \<open>initial_epoch_dice = k\<close> where \<open>0 \<le> k < dice_epochs\<close>, performs the epochs
  \<open>k, \<dots>, dice_epochs - 1\<close> of the dice phase, that is \<open>dice_epochs - k\<close> epochs, and
  writes the checkpoints numbered \<open>k + 1\<close> to \<open>dice_epochs\<close>, named \<^verbatim>\<open>'dice_%03d.h5'\<close> in
  the model directory, in this order and no other.
\<close>

lemma resume_dice_phase_braceless:
  assumes "completes env a" and "braceless (model_dir a)"
    and "initial_epoch_dice a = k" and "0 \<le> k" and "k < dice_epochs a"
  shows "epochs_run Dice_model (calls env a) = [k..dice_epochs a - 1] \<and>
         length (epochs_run Dice_model (calls env a)) = nat (dice_epochs a - k) \<and>
         checkpoints Dice_model (calls env a) =
           map (checkpoint_file (model_dir a) ''dice'') [k + 1..dice_epochs a]"
proof -
  have c: "calls env a = all_calls env a" using assms(1) by (rule calls_complete)
  have d: "0 < dice_epochs a" using assms(4,5) by simp
  have e: "epochs_run Dice_model (calls env a) = [k..dice_epochs a - 1]"
    unfolding c epochs_all_calls using d assms(3) by simp
  have s: "checkpoints Dice_model (calls env a) =
           map (checkpoint_file (model_dir a) ''dice'') [k + 1..dice_epochs a]"
    unfolding c checkpoints_all_calls [OF assms(2)] using d assms(3)
    by (simp add: map_Suc_upto)
  from e s assms(5) show ?thesis by simp
qed

lemma resume_dice_phase_example:
  "epochs_run Dice_model (calls test_env scenario_resume) = [1, 2] \<and>
   checkpoints Dice_model (calls test_env scenario_resume) =
     [''models/dice_002.h5'', ''models/dice_003.h5'']"
proof -
  have b: "braceless (model_dir scenario_resume)"
    by (simp add: scenario_resume_fields braceless_def)
  have u: "[1..2::int] = [1, 2]" "[2..3::int] = [2, 3]"
    by (simp_all add: upto_rec1)
  from resume_dice_phase_braceless [OF scenario_resume_completes b scenario_resume_fields(1)]
  show ?thesis
    by (simp add: scenario_resume_fields u checkpoint_file_def os_path_join_def pad3_examples)
qed

text \<open>
  Claim C5 fails on the code where the model directory holds a brace. Line 298 puts
  \<open>model_dir\<close> into the template that \<^verbatim>\<open>ModelCheckpoint\<close> hands to \<^verbatim>\<open>str.format\<close>. With the
  model directory \<^verbatim>\<open>m}\<close>, three dice epochs and \<open>initial_epoch_dice = 1\<close>, where no call
  raises, the run performs the one epoch 1 and ends in a \<^verbatim>\<open>ValueError\<close> when the template
  is formatted: not the two epochs 1 and 2, and none of the checkpoints 2 and 3.
\<close>

theorem resume_stops_at_brace:
  "model_dir scenario_brace = ''m}'' \<and>
   initial_epoch_dice scenario_brace = 1 \<and> dice_epochs scenario_brace = 3 \<and>
   snd (run test_env scenario_brace) = Inl ValueError \<and>
   directories (calls test_env scenario_brace) = [''m}'', ''m}/logs''] \<and>
   epochs_run Dice_model (calls test_env scenario_brace) = [1] \<and>
   checkpoints Dice_model (calls test_env scenario_brace) = []"
  by (intro conjI) code_simp+

lemma lagging_after:
  assumes "checkpoints m xs = map name (epochs_run m xs)" and "lagging m name zs"
  shows "lagging m name (xs @ zs)"
proof -
  let ?cx = "checkpoints m xs" and ?ex = "epochs_run m xs"
  let ?cz = "checkpoints m zs" and ?ez = "epochs_run m zs"
  from assms(1) have len: "length ?cx = length ?ex"
    by (metis length_map)
  have app: "checkpoints m (xs @ zs) = ?cx @ ?cz" "epochs_run m (xs @ zs) = ?ex @ ?ez"
    by (simp_all add: checkpoints_def epochs_run_def)
  from assms(2) have z1: "map name (take (length ?cz) ?ez) = ?cz"
    and z2: "length ?ez \<le> Suc (length ?cz)"
    by (simp_all add: lagging_def)
  have "take (length (?cx @ ?cz)) (?ex @ ?ez) = ?ex @ take (length ?cz) ?ez"
    by (simp add: len)
  then have "map name (take (length (?cx @ ?cz)) (?ex @ ?ez)) =
             map name ?ex @ map name (take (length ?cz) ?ez)"
    by simp
  also have "\<dots> = ?cx @ ?cz"
    by (simp only: z1 assms(1))
  finally have 1: "?cx @ ?cz = map name (take (length (?cx @ ?cz)) (?ex @ ?ez))" ..
  have 2: "length (?ex @ ?ez) \<le> Suc (length (?cx @ ?cz))"
    using z2 len by simp
  from 1 2 show ?thesis
    unfolding lagging_def app by (rule conjI)
qed

lemma stepwise_append:
  assumes "stepwise m name xs" "stepwise m name ys"
  shows "stepwise m name (xs @ ys)"
  unfolding stepwise_def
proof (intro conjI allI)
  from assms show "checkpoints m (xs @ ys) = map name (epochs_run m (xs @ ys))"
    by (simp add: stepwise_def checkpoints_def epochs_run_def)
next
  fix k
  show "lagging m name (take k (xs @ ys))"
  proof (cases "k \<le> length xs")
    case True
    then have eq: "take k (xs @ ys) = take k xs" by simp
    from assms(1) have "lagging m name (take k xs)" by (simp add: stepwise_def)
    then show ?thesis by (simp only: eq)
  next
    case False
    then have eq: "take k (xs @ ys) = xs @ take (k - length xs) ys" by simp
    have "lagging m name (xs @ take (k - length xs) ys)"
      using assms by (intro lagging_after) (simp_all add: stepwise_def)
    then show ?thesis by (simp only: eq)
  qed
qed

lemma stepwise_neutral:
  assumes "epochs_run m xs = []" "checkpoints m xs = []"
  shows "stepwise m name xs"
proof -
  have "epochs_run m (take k xs) = []" for k
    using assms(1) unfolding epochs_run_def by (rule view_take_nil)
  moreover have "checkpoints m (take k xs) = []" for k
    using assms(2) unfolding checkpoints_def by (rule view_take_nil)
  ultimately show ?thesis using assms by (simp add: stepwise_def lagging_def)
qed

lemma stepwise_Cons:
  "epoch_of m x = [] \<Longrightarrow> save_of m x = [] \<Longrightarrow> stepwise m name xs \<Longrightarrow> stepwise m name (x # xs)"
  using stepwise_append [of m name "[x]" xs]
  by (simp add: stepwise_neutral epochs_run_def checkpoints_def)

lemma take_two: "take k [x, y] = [] \<or> take k [x, y] = [x] \<or> take k [x, y] = [x, y]"
proof (cases k)
  case 0
  then show ?thesis by simp
next
  case (Suc j)
  then show ?thesis by (cases j) simp_all
qed

lemma stepwise_block:
  "stepwise m name [Epoch m e s, Save_weights m (name e)]"
proof -
  have "lagging m name (take k [Epoch m e s, Save_weights m (name e)])" for k
    using take_two [of k "Epoch m e s" "Save_weights m (name e)"]
    by (auto simp: lagging_def checkpoints_def epochs_run_def)
  then show ?thesis by (simp add: stepwise_def checkpoints_def epochs_run_def)
qed

lemma stepwise_concat:
  "(\<And>x. x \<in> set xs \<Longrightarrow> stepwise m name (g x)) \<Longrightarrow> stepwise m name (concat (map g xs))"
  by (induction xs) (simp_all add: stepwise_append stepwise_neutral epochs_run_def checkpoints_def)

lemma stepwise_fit_calls:
  assumes "braceless dir" "tag = ''wl2'' \<or> tag = ''dice''"
  shows "stepwise m' (\<lambda>e. checkpoint_file dir tag (e + 1))
           (fit_calls env m n s (train_callbacks dir ld tag) i)"
proof (cases "m' = m")
  case False
  then show ?thesis
    by (intro stepwise_neutral) (simp_all add: epochs_fit_calls checkpoints_fit_calls [OF assms])
next
  case True
  have "stepwise m (\<lambda>e. checkpoint_file dir tag (e + 1))
          (epoch_calls env m s (train_callbacks dir ld tag) e)" for e
  proof -
    have "stepwise m (\<lambda>e. checkpoint_file dir tag (e + 1))
            ([Epoch m e s, Save_weights m (checkpoint_file dir tag (e + 1))] @
             (if tag = ''dice'' then [TensorBoard_log ld e] else []))"
      by (intro stepwise_append stepwise_block stepwise_neutral)
        (simp_all add: epochs_run_def checkpoints_def)
    then show ?thesis
      using assms by (auto simp: epoch_calls_wl2 epoch_calls_dice)
  qed
  then show ?thesis
    unfolding True fit_calls_def by (intro stepwise_concat)
qed

lemma stepwise_train_model_calls:
  assumes "braceless dir" "tag = ''wl2'' \<or> tag = ''dice''"
  shows "stepwise m' (\<lambda>e. checkpoint_file dir tag (e + 1))
           (train_model_calls env m l d n s dir ld tag i)"
  unfolding train_model_calls_def
  by (intro stepwise_Cons stepwise_fit_calls assms) simp_all

lemma callback_calls_other:
  "m' \<noteq> m \<Longrightarrow> concat (map (save_of m') (callback_calls env m cb e)) = []"
  by (cases cb) (auto simp: callback_calls_def split: sum.splits)

lemma checkpoints_fit_calls_other:
  "m' \<noteq> m \<Longrightarrow> checkpoints m' (fit_calls env m n s cbs i) = []"
  by (simp add: checkpoints_def fit_calls_def epoch_calls_def view_concat_map
      callback_calls_other)

lemma stepwise_other:
  assumes "m' \<noteq> m"
  shows "stepwise m' name (train_model_calls env m l d n s dir ld mt i)"
proof (rule stepwise_neutral)
  show "epochs_run m' (train_model_calls env m l d n s dir ld mt i) = []"
    using assms by (simp add: epochs_train_model_calls)
  show "checkpoints m' (train_model_calls env m l d n s dir ld mt i) = []"
    using checkpoints_fit_calls_other [OF assms, of env n s "train_callbacks dir ld mt" i]
    by (simp add: checkpoints_def view_train_model_calls)
qed

lemma stepwise_Nil: "stepwise m name []"
  by (simp add: stepwise_neutral epochs_run_def checkpoints_def)

lemma stepwise_label_calls: "stepwise m name (label_calls a)"
  by (rule stepwise_neutral)
    (simp_all add: epochs_run_def checkpoints_def view_label_calls split: option.splits)

lemma stepwise_all_calls:
  assumes b: "braceless (model_dir a)"
    and mt: "(m = Wl2_model \<and> tag = ''wl2'') \<or> (m = Dice_model \<and> tag = ''dice'')"
  shows "stepwise m (\<lambda>e. checkpoint_file (model_dir a) tag (e + 1)) (all_calls env a)"
proof -
  let ?name = "\<lambda>e. checkpoint_file (model_dir a) tag (e + 1)"
  have w: "stepwise m ?name (train_model_calls env Wl2_model l d n s (model_dir a) ld ''wl2'' i)"
    for l d n s ld i
  proof (cases "m = Wl2_model")
    case True
    with mt have "tag = ''wl2''" by auto
    then show ?thesis using stepwise_train_model_calls [OF b, of tag] by simp
  next
    case False
    then show ?thesis by (rule stepwise_other)
  qed
  have d: "stepwise m ?name (train_model_calls env Dice_model l d n s (model_dir a) ld ''dice'' i)"
    for l d n s ld i
  proof (cases "m = Dice_model")
    case True
    with mt have "tag = ''dice''" by auto
    then show ?thesis using stepwise_train_model_calls [OF b, of tag] by simp
  next
    case False
    then show ?thesis by (rule stepwise_other)
  qed
  have wl2: "stepwise m ?name (wl2_calls env a sl ld)" for sl ld
    unfolding wl2_calls_def
    by (cases "load_model_file a")
      (auto intro!: stepwise_Cons stepwise_append stepwise_Nil w)
  have dice: "stepwise m ?name (dice_calls env a sl ld)" for sl ld
    unfolding dice_calls_def
    by (cases "load_model_file a")
      (auto intro!: stepwise_Cons stepwise_append stepwise_Nil d)
  show ?thesis
    unfolding all_calls_def build_calls_def
    by (auto intro!: stepwise_Cons stepwise_append stepwise_Nil stepwise_label_calls wl2 dice)
qed

lemma lagging_calls:
  assumes "braceless (model_dir a)"
    and "(m = Wl2_model \<and> tag = ''wl2'') \<or> (m = Dice_model \<and> tag = ''dice'')"
  shows "lagging m (\<lambda>e. checkpoint_file (model_dir a) tag (e + 1)) (calls env a)"
proof -
  obtain k where "calls env a = take k (all_calls env a)" using calls_take by blast
  with stepwise_all_calls [OF assms, of env] show ?thesis by (simp add: stepwise_def)
qed

lemma fit_calls_weights_only:
  "ev \<in> set (fit_calls env m n s (train_callbacks dir ld mt) i) \<Longrightarrow> \<not> is_Save_model ev"
  by (auto simp: fit_calls_def epoch_calls_def train_callbacks_def callback_calls_def Let_def
      split: sum.splits if_splits)

lemma all_calls_weights_only: "\<not> list_ex is_Save_model (all_calls env a)"
proof -
  let ?f = "\<lambda>ev :: 'a event. if is_Save_model ev then [()] else []"
  have fit: "concat (map ?f (fit_calls env m n s (train_callbacks dir ld mt) i)) = []"
    for m n s dir ld mt i
    by (rule concat_map_nil) (simp add: fit_calls_weights_only)
  have "concat (map ?f (all_calls env a)) = []"
    unfolding view_all_calls view_build_calls view_wl2_calls view_dice_calls
      view_train_model_calls view_label_calls fit
    by (simp split: option.splits)
  then show ?thesis by (auto simp: list_ex_iff split: if_splits)
qed

lemma calls_weights_only: "\<not> list_ex is_Save_model (calls env a)"
  using all_calls_weights_only [of env a] calls_subset [of env a]
  by (auto simp: list_ex_iff)

lemma callbacks_of_fit: "fit_event ev \<Longrightarrow> callbacks_of m ev = []"
  by (cases ev) simp_all

lemma fit_callbacks_all_calls:
  "fit_callbacks m (all_calls env a) =
     (if m = Wl2_model \<and> wl2_epochs a > 0
      then [train_callbacks (model_dir a) (os_path_join (model_dir a) ''logs'') ''wl2''] else []) @
     (if m = Dice_model \<and> dice_epochs a > 0
      then [train_callbacks (model_dir a) (os_path_join (model_dir a) ''logs'') ''dice''] else [])"
  by (simp add: fit_callbacks_def view_calls callbacks_of_fit split: option.splits)

lemma tensorboard_attached:
  "list_ex is_TensorBoard (train_callbacks dir ld ''dice'')"
  "\<not> list_ex is_TensorBoard (train_callbacks dir ld ''wl2'')"
  by (simp_all add: train_callbacks_def)

lemma summaries_all_calls:
  assumes "braceless (model_dir a)"
  shows "summaries (all_calls env a) =
     (if dice_epochs a > 0
      then map (\<lambda>e. (os_path_join (model_dir a) ''logs'', e))
             [initial_epoch_dice a..dice_epochs a - 1] else [])"
proof -
  have w: "concat (map summary_of (fit_calls env m n s (train_callbacks (model_dir a) ld ''wl2'') i)) = []"
    for m n s ld i
    using assms by (simp add: fit_calls_def view_concat_map epoch_calls_wl2)
  have d: "concat (map summary_of (fit_calls env m n s (train_callbacks (model_dir a) ld ''dice'') i)) =
           map (\<lambda>e. (ld, e)) [i..n - 1]"
    for m n s ld i
    using assms by (simp add: fit_calls_def view_concat_map epoch_calls_dice)
  show ?thesis
    unfolding summaries_def view_all_calls view_build_calls view_wl2_calls view_dice_calls
      view_train_model_calls view_label_calls w d
    by (simp split: option.splits)
qed

text \<open>
  Where the model directory holds no brace: in every run, for each phase, the
  checkpoints written are those of the epochs begun, in order, named by the phase tag
  and the zero-padded number of the epoch; only the epoch during which the run stopped
  can lack its checkpoint. In a run that completes, every epoch of either phase has its
  checkpoint. No call saves a whole model (the checkpoints are weights only). The
  TensorBoard callback is passed to the fit of the dice model and never to the fit of
  the warm-up model, and a completed run logs one summary per dice epoch.
\<close>

lemma checkpoint_every_epoch_braceless:
  assumes b: "braceless (model_dir a)"
  shows
   "lagging Wl2_model (\<lambda>e. checkpoint_file (model_dir a) ''wl2'' (e + 1)) (calls env a) \<and>
    lagging Dice_model (\<lambda>e. checkpoint_file (model_dir a) ''dice'' (e + 1)) (calls env a) \<and>
    (completes env a \<longrightarrow>
       checkpoints Wl2_model (calls env a) =
         map (\<lambda>e. checkpoint_file (model_dir a) ''wl2'' (e + 1))
           (epochs_run Wl2_model (calls env a)) \<and>
       checkpoints Dice_model (calls env a) =
         map (\<lambda>e. checkpoint_file (model_dir a) ''dice'' (e + 1))
           (epochs_run Dice_model (calls env a)) \<and>
       summaries (calls env a) =
         map (\<lambda>e. (os_path_join (model_dir a) ''logs'', e))
           (epochs_run Dice_model (calls env a))) \<and>
    \<not> list_ex is_Save_model (calls env a) \<and>
    (\<forall>cbs \<in> set (fit_callbacks Wl2_model (calls env a)). \<not> list_ex is_TensorBoard cbs) \<and>
    (\<forall>cbs \<in> set (fit_callbacks Dice_model (calls env a)). list_ex is_TensorBoard cbs)"
proof -
  have l1: "lagging Wl2_model (\<lambda>e. checkpoint_file (model_dir a) ''wl2'' (e + 1)) (calls env a)"
    by (rule lagging_calls [OF b]) simp
  have l2: "lagging Dice_model (\<lambda>e. checkpoint_file (model_dir a) ''dice'' (e + 1)) (calls env a)"
    by (rule lagging_calls [OF b]) simp
  have c: "completes env a \<longrightarrow>
       checkpoints Wl2_model (calls env a) =
         map (\<lambda>e. checkpoint_file (model_dir a) ''wl2'' (e + 1))
           (epochs_run Wl2_model (calls env a)) \<and>
       checkpoints Dice_model (calls env a) =
         map (\<lambda>e. checkpoint_file (model_dir a) ''dice'' (e + 1))
           (epochs_run Dice_model (calls env a)) \<and>
       summaries (calls env a) =
         map (\<lambda>e. (os_path_join (model_dir a) ''logs'', e))
           (epochs_run Dice_model (calls env a))"
  proof
    assume "completes env a"
    then have "calls env a = all_calls env a" by (rule calls_complete)
    then show "checkpoints Wl2_model (calls env a) =
         map (\<lambda>e. checkpoint_file (model_dir a) ''wl2'' (e + 1))
           (epochs_run Wl2_model (calls env a)) \<and>
       checkpoints Dice_model (calls env a) =
         map (\<lambda>e. checkpoint_file (model_dir a) ''dice'' (e + 1))
           (epochs_run Dice_model (calls env a)) \<and>
       summaries (calls env a) =
         map (\<lambda>e. (os_path_join (model_dir a) ''logs'', e))
           (epochs_run Dice_model (calls env a))"
      by (simp add: checkpoints_all_calls [OF b] epochs_all_calls summaries_all_calls [OF b])
  qed
  have sub: "set (fit_callbacks m (calls env a)) \<subseteq> set (fit_callbacks m (all_calls env a))" for m
    using view_subset [of "callbacks_of m" env a] by (simp add: fit_callbacks_def)
  have t1: "\<forall>cbs \<in> set (fit_callbacks Wl2_model (calls env a)). \<not> list_ex is_TensorBoard cbs"
    using sub [of Wl2_model] by (auto simp: fit_callbacks_all_calls tensorboard_attached)
  have t2: "\<forall>cbs \<in> set (fit_callbacks Dice_model (calls env a)). list_ex is_TensorBoard cbs"
    using sub [of Dice_model] by (auto simp: fit_callbacks_all_calls tensorboard_attached)
  from l1 l2 c calls_weights_only [of env a] t1 t2 show ?thesis by blast
qed

lemma checkpoint_every_epoch_example:
  "checkpoints Wl2_model (calls test_env scenario_both) = [''models/wl2_001.h5''] \<and>
   checkpoints Dice_model (calls test_env scenario_both) =
     [''models/dice_001.h5'', ''models/dice_002.h5''] \<and>
   summaries (calls test_env scenario_both) = [(''models/logs'', 0), (''models/logs'', 1)]"
proof -
  have b: "braceless (model_dir scenario_both)"
    by (simp add: scenario_both_fields braceless_def)
  from checkpoint_every_epoch_braceless [OF b, of test_env] scenario_both_completes
  show ?thesis
    by (simp add: scenario_both_epochs scenario_both_fields checkpoint_file_def os_path_join_def
        pad3_examples)
qed

text \<open>
  Claim C6 fails on the code where the model directory holds a brace. Line 298 puts
  \<open>model_dir\<close> into the template that \<^verbatim>\<open>ModelCheckpoint\<close> hands to \<^verbatim>\<open>str.format\<close>, which
  reads its doubled braces as escapes. With the model directory \<^verbatim>\<open>m{{x}}\<close>, one warm-up
  epoch and two dice epochs, where no call raises, the run completes; it creates the
  directories \<^verbatim>\<open>m{{x}}\<close> and \<^verbatim>\<open>m{{x}}/logs\<close> and writes every checkpoint under \<^verbatim>\<open>m{x}\<close>,
  which is not the model directory; the dice model then loads the warm-up checkpoint
  from \<^verbatim>\<open>m{{x}}/wl2_001.h5\<close> (line 278), a file the run did not write.
\<close>

theorem checkpoints_outside_model_dir:
  "model_dir scenario_escaped = ''m{{x}}'' \<and>
   completes test_env scenario_escaped \<and>
   directories (calls test_env scenario_escaped) = [''m{{x}}'', ''m{{x}}/logs''] \<and>
   checkpoints Wl2_model (calls test_env scenario_escaped) = [''m{x}/wl2_001.h5''] \<and>
   checkpoints Dice_model (calls test_env scenario_escaped) =
     [''m{x}/dice_001.h5'', ''m{x}/dice_002.h5''] \<and>
   loads Dice_model (calls test_env scenario_escaped) = [(''m{{x}}/wl2_001.h5'', True)]"
  by (intro conjI) code_simp+

subsection \<open>Runs that complete\<close>

text \<open>
  When no external call raises and the model directory holds no brace, a run with a
  positive epoch count completes: the hypothesis of the theorems about completed runs
  can be met for every such configuration.
\<close>

lemma returns_succeed: "returns (succeed x)"
  by (simp add: returns_def succeed_def)

lemma returns_ext: "never_raises env \<Longrightarrow> returns (ext env ev x)"
  by (simp add: returns_def ext_def never_raises_def)

lemma returns_and_then:
  assumes "returns p" "\<And>x. returns (f x)"
  shows "returns (and_then p f)"
  unfolding returns_def
proof
  fix tr
  from assms(1) obtain tr1 x where p: "p tr = (tr1, Inr x)"
    unfolding returns_def by blast
  from assms(2) [of x] obtain tr2 y where "f x tr1 = (tr2, Inr y)"
    unfolding returns_def by blast
  with p have "and_then p f tr = (tr2, Inr y)" by (simp add: and_then_def)
  then show "\<exists>tr' x. and_then p f tr = (tr', Inr x)" by blast
qed

lemma returns_on_epoch_end:
  assumes "never_raises env" "braceless dir" "tag = ''wl2'' \<or> tag = ''dice''"
  shows "returns (on_epoch_end env m (train_callbacks dir ld tag) e)"
  using assms
  by (auto simp: train_callbacks_def format_checkpoint_wl2 format_checkpoint_dice
      intro!: returns_and_then returns_ext returns_succeed)

lemma returns_fit_epochs:
  assumes "never_raises env" "\<And>e. returns (on_epoch_end env m cbs e)"
  shows "returns (fit_epochs env m epochs steps cbs epoch)"
proof (induction "nat (epochs - epoch)" arbitrary: epoch)
  case 0
  then have "\<not> epoch < epochs" by simp
  then show ?case
    by (subst fit_epochs_unfold) (simp add: returns_succeed)
next
  case (Suc n)
  then have lt: "epoch < epochs" and n: "n = nat (epochs - (epoch + 1))" by auto
  show ?case
    by (subst fit_epochs_unfold)
      (simp add: lt returns_and_then returns_ext assms Suc.hyps(1) [OF n])
qed

lemma returns_train_model:
  assumes "never_raises env" "braceless dir" "tag = ''wl2'' \<or> tag = ''dice''"
  shows "returns (train_model env m l d n s dir ld tag i)"
  unfolding train_model_def fit_generator_def Let_def
  by (intro returns_and_then returns_ext returns_fit_epochs returns_on_epoch_end assms)

lemma returns_wl2_phase:
  assumes "never_raises env" "braceless (model_dir a)"
  shows "returns (wl2_phase env a sl ld)"
  unfolding wl2_phase_def
  by (cases "load_model_file a")
    (auto intro!: returns_and_then returns_ext returns_succeed returns_train_model assms)

lemma returns_dice_phase:
  assumes "never_raises env" "braceless (model_dir a)"
  shows "returns (dice_phase env a sl ld)"
  unfolding dice_phase_def Let_def
  by (cases "load_model_file a")
    (auto intro!: returns_and_then returns_ext returns_succeed returns_train_model assms)

lemma returns_build_and_train:
  assumes "never_raises env" "braceless (model_dir a)"
  shows "returns (build_and_train env a sl ld bg)"
  unfolding build_and_train_def Let_def
  by (intro returns_and_then returns_ext returns_wl2_phase returns_dice_phase assms)

lemma returns_training:
  assumes "never_raises env" "braceless (model_dir a)" "wl2_epochs a > 0 \<or> dice_epochs a > 0"
  shows "returns (training env a)"
proof -
  have seg: "returns (case path_segmentation_labels a of
             Some path \<Rightarrow>
               and_then
                 (ext env (Get_list_labels (Some path) None None True)
                    (get_list_labels env (Some path) None None True))
                 (\<lambda>(segmentation_labels, _). succeed segmentation_labels)
           | None \<Rightarrow> succeed gl)" for gl
    by (cases "path_segmentation_labels a")
      (auto intro!: returns_and_then returns_ext returns_succeed assms(1) split: prod.splits)
  show ?thesis
    unfolding training_def Let_def using assms(3)
    by (auto intro!: returns_and_then returns_ext returns_build_and_train seg assms(1,2)
        split: prod.splits)
qed

lemma completes_if_nothing_raises:
  assumes "never_raises env" "braceless (model_dir a)" "wl2_epochs a > 0 \<or> dice_epochs a > 0"
  shows "completes env a"
proof -
  from returns_training [OF assms] obtain tr' x where "training env a [] = (tr', Inr x)"
    unfolding returns_def by blast
  then show ?thesis by (simp add: completes_def run_def)
qed

end
